theory Spec2Isabelle
  imports Main "HOL-Library.AList" "HOL-Library.Monad_Syntax"
begin

section \<open>JavaScript values\<close>

text \<open>
  The money-request actions build plain JavaScript objects and hand them to the Onyx
  store as patches. Objects are association lists with distinct keys, amounts are
  integers (minor currency units), and \<open>JNaN\<close> is the result of arithmetic on a
  value that is not a number.
\<close>

datatype jv =
    JUndef
  | JNull
  | JNaN
  | JBool bool
  | JNum int
  | JStr string
  | JArr "jv list"
  | JObj "(string \<times> jv) list"

text \<open>Truthiness as \<open>if (x)\<close>, \<open>!x\<close>, \<open>x || y\<close> and \<open>x ? a : b\<close> see it.\<close>

fun truthy :: "jv \<Rightarrow> bool" where
  "truthy JUndef = False"
| "truthy JNull = False"
| "truthy JNaN = False"
| "truthy (JBool b) = b"
| "truthy (JNum n) = (n \<noteq> 0)"
| "truthy (JStr s) = (s \<noteq> [])"
| "truthy (JArr xs) = True"
| "truthy (JObj fs) = True"

text \<open>The own properties of a value, as an object spread enumerates them. Spreading
  \<open>null\<close>, \<open>undefined\<close>, a number or a boolean contributes nothing; the actions only
  ever spread objects.\<close>

fun own_props :: "jv \<Rightarrow> (string \<times> jv) list" where
  "own_props (JObj fs) = fs"
| "own_props v = []"

text \<open>\<open>x.k\<close> on a value that is known to be an object (or a primitive): a missing
  property reads as \<open>undefined\<close>.\<close>

definition jprop :: "jv \<Rightarrow> string \<Rightarrow> jv" where
  "jprop x k = (case map_of (own_props x) k of None \<Rightarrow> JUndef | Some v \<Rightarrow> v)"

text \<open>\<open>x.k\<close> where \<open>x\<close> itself may be missing: reading a property of \<open>null\<close> or
  \<open>undefined\<close> throws a TypeError, which is \<open>None\<close> here.\<close>

definition jmember :: "jv \<Rightarrow> string \<Rightarrow> jv option" where
  "jmember x k = (if x = JUndef \<or> x = JNull then None else Some (jprop x k))"

text \<open>\<open>x[0]\<close>: the first element of an array, the property \<open>"0"\<close> of an object.\<close>

definition index0 :: "jv \<Rightarrow> jv option" where
  "index0 x =
     (case x of
        JUndef \<Rightarrow> None
      | JNull \<Rightarrow> None
      | JArr xs \<Rightarrow> Some (case xs of [] \<Rightarrow> JUndef | y # ys \<Rightarrow> y)
      | JStr s \<Rightarrow> Some (case s of [] \<Rightarrow> JUndef | c # cs \<Rightarrow> JStr [c])
      | _ \<Rightarrow> Some (jprop x ''0''))"

text \<open>\<open>a === b\<close> on primitives. Two objects or arrays are equal only when they are the
  same reference, which the actions never compare; \<open>NaN\<close> equals nothing.\<close>

fun strict_eq :: "jv \<Rightarrow> jv \<Rightarrow> bool" where
  "strict_eq JUndef JUndef = True"
| "strict_eq JNull JNull = True"
| "strict_eq (JBool a) (JBool b) = (a = b)"
| "strict_eq (JNum a) (JNum b) = (a = b)"
| "strict_eq (JStr a) (JStr b) = (a = b)"
| "strict_eq a b = False"

text \<open>Arithmetic on amounts. Both operands are numbers wherever the actions compute
  a total; any other operand gives \<open>NaN\<close> (the coercion of strings, booleans and
  \<open>null\<close> is left out). Amounts are exact integers, where JavaScript's doubles
  round beyond \<open>2^53\<close>.\<close>

fun js_sub :: "jv \<Rightarrow> jv \<Rightarrow> jv" where
  "js_sub (JNum a) (JNum b) = JNum (a - b)"
| "js_sub a b = JNaN"

fun js_add :: "jv \<Rightarrow> jv \<Rightarrow> jv" where
  "js_add (JNum a) (JNum b) = JNum (a + b)"
| "js_add a b = JNaN"

fun js_neg :: "jv \<Rightarrow> jv" where
  "js_neg (JNum a) = JNum (- a)"
| "js_neg a = JNaN"

text \<open>\<open>a > b\<close> on numbers; a comparison with \<open>undefined\<close> or \<open>NaN\<close> is false.\<close>

fun js_gt :: "jv \<Rightarrow> jv \<Rightarrow> bool" where
  "js_gt (JNum a) (JNum b) = (a > b)"
| "js_gt a b = False"

text \<open>Underscore's \<open>_.isEmpty\<close>: \<open>null\<close> and \<open>undefined\<close> are empty, strings and
  arrays when they have length 0, anything else when it has no own keys.\<close>

fun isEmpty :: "jv \<Rightarrow> bool" where
  "isEmpty (JStr s) = (s = [])"
| "isEmpty (JArr xs) = (xs = [])"
| "isEmpty (JObj fs) = (fs = [])"
| "isEmpty v = True"

subsection \<open>Template strings\<close>

fun digit_char :: "nat \<Rightarrow> char" where
  "digit_char n = char_of (48 + n)"

fun nat_digits :: "nat \<Rightarrow> string" where
  "nat_digits n = (if n < 10 then [digit_char n] else nat_digits (n div 10) @ [digit_char (n mod 10)])"

definition int_digits :: "int \<Rightarrow> string" where
  "int_digits i = (if i < 0 then CHR ''-'' # nat_digits (nat (- i)) else nat_digits (nat i))"

fun join_comma :: "string list \<Rightarrow> string" where
  "join_comma [] = []"
| "join_comma [s] = s"
| "join_comma (s # t # ss) = s @ '','' @ join_comma (t # ss)"

text \<open>What \<open>`${x}`\<close> puts into a key or a computed property name.\<close>

fun to_string :: "jv \<Rightarrow> string" where
  "to_string JUndef = ''undefined''"
| "to_string JNull = ''null''"
| "to_string JNaN = ''NaN''"
| "to_string (JBool b) = (if b then ''true'' else ''false'')"
| "to_string (JNum n) = int_digits n"
| "to_string (JStr s) = s"
| "to_string (JArr xs) =
     join_comma (map (\<lambda>x. if x = JNull \<or> x = JUndef then [] else to_string x) xs)"
| "to_string (JObj fs) = ''[object Object]''"

subsection \<open>Object literals\<close>

text \<open>An object literal is read left to right: \<open>k: v\<close> writes one property,
  \<open>...x\<close> writes every own property of \<open>x\<close>; a later write of a key replaces the
  earlier one.\<close>

datatype piece = Prop string jv | Spread jv

fun spread_into :: "(string \<times> jv) list \<Rightarrow> (string \<times> jv) list \<Rightarrow> (string \<times> jv) list" where
  "spread_into acc [] = acc"
| "spread_into acc ((k, v) # rest) = AList.update k v (spread_into acc rest)"

fun obj_add :: "(string \<times> jv) list \<Rightarrow> piece \<Rightarrow> (string \<times> jv) list" where
  "obj_add acc (Prop k v) = AList.update k v acc"
| "obj_add acc (Spread x) = spread_into acc (own_props x)"

definition object :: "piece list \<Rightarrow> jv" where
  "object ps = JObj (foldl obj_add [] ps)"

section \<open>The Onyx store\<close>

text \<open>
  Collection keys are a collection prefix followed by an identifier. The prefixes
  (\<open>ONYXKEYS.COLLECTION.*\<close>, declared outside these sources) are taken to be
  distinct constants none of which is a prefix of
  another, so a key is the pair of its collection and the identifier's string.
\<close>

datatype collection =
    REPORT
  | REPORT_ACTIONS
  | TRANSACTION
  | TRANSACTION_DRAFT
  | TRANSACTION_VIOLATIONS
  | POLICY_RECENTLY_USED_CATEGORIES
  | POLICY_RECENTLY_USED_TAGS
  | NEXT_STEP

datatype okey = Coll collection string | PERSONAL_DETAILS_LIST

datatype onyx_method = SET | MERGE

record patch =
  onyxMethod :: onyx_method
  key :: okey
  val :: jv

type_synonym store = "okey \<Rightarrow> jv option"

text \<open>
  Modelled from the spec: the store's merge, which is not part of these sources. It is
  a recursive merge of objects in which a \<open>null\<close> leaf clears the field and an omitted
  key leaves the existing value untouched; a property whose value is \<open>undefined\<close>
  counts as omitted. Anything that is not an object replaces the old value.
\<close>

fun merge_jv :: "jv \<Rightarrow> jv \<Rightarrow> jv"
  and merge_fields :: "(string \<times> jv) list \<Rightarrow> (string \<times> jv) list \<Rightarrow> (string \<times> jv) list" where
  "merge_jv t (JObj s) = JObj (merge_fields (own_props t) s)"
| "merge_jv t JUndef = JUndef"
| "merge_jv t JNull = JNull"
| "merge_jv t JNaN = JNaN"
| "merge_jv t (JBool b) = JBool b"
| "merge_jv t (JNum n) = JNum n"
| "merge_jv t (JStr s) = JStr s"
| "merge_jv t (JArr xs) = JArr xs"
| "merge_fields t [] = t"
| "merge_fields t ((k, v) # rest) =
     (case v of
        JUndef \<Rightarrow> merge_fields t rest
      | JNull \<Rightarrow> AList.delete k (merge_fields t rest)
      | _ \<Rightarrow> AList.update k (merge_jv (jprop (JObj t) k) v) (merge_fields t rest))"

text \<open>
  Modelled from the spec: the three patch operations. \<open>SET\<close> overwrites the document,
  \<open>SET\<close> of \<open>null\<close> deletes it, \<open>MERGE\<close> merges into the document (into an empty
  one when there is none) and \<open>MERGE\<close> of \<open>null\<close> deletes it.
\<close>

definition apply_patch :: "store \<Rightarrow> patch \<Rightarrow> store" where
  "apply_patch s p =
     (case onyxMethod p of
        SET \<Rightarrow> (if val p = JNull \<or> val p = JUndef then s(key p := None) else s(key p \<mapsto> val p))
      | MERGE \<Rightarrow>
          (if val p = JNull then s(key p := None)
           else if val p = JUndef then s
           else s(key p \<mapsto> merge_jv (case s (key p) of None \<Rightarrow> JUndef | Some d \<Rightarrow> d) (val p))))"

definition apply_patches :: "store \<Rightarrow> patch list \<Rightarrow> store" where
  "apply_patches s ps = foldl apply_patch s ps"

text \<open>The document under a key, \<open>undefined\<close> when there is none, and a field of it.\<close>

definition doc :: "store \<Rightarrow> okey \<Rightarrow> jv" where
  "doc s k = (case s k of None \<Rightarrow> JUndef | Some d \<Rightarrow> d)"

text \<open>A field holds a value when it is present and neither \<open>null\<close> nor \<open>undefined\<close>.\<close>

definition is_set :: "jv \<Rightarrow> bool" where
  "is_set v = (v \<noteq> JUndef \<and> v \<noteq> JNull)"

section \<open>Outstanding child request\<close>

text \<open>
  \<open>getOutstandingChildRequest(policy, needsToBeManuallySubmitted)\<close>. The helper
  \<open>PolicyUtils.isPolicyAdmin\<close> lives outside these sources and is a parameter.
\<close>

definition getOutstandingChildRequest :: "(jv \<Rightarrow> bool) \<Rightarrow> jv \<Rightarrow> jv \<Rightarrow> jv" where
  "getOutstandingChildRequest isPolicyAdmin policy needsToBeManuallySubmitted =
     (if \<not> truthy needsToBeManuallySubmitted
        then object [Prop ''hasOutstandingChildRequest'' (JBool False)]
      else if isPolicyAdmin policy
        then object [Prop ''hasOutstandingChildRequest'' (JBool True)]
      else object [])"

text \<open>A stand-in for \<open>PolicyUtils.isPolicyAdmin\<close> at concrete inputs: the policy's
  \<open>role\<close> is \<open>admin\<close>.\<close>

definition role_is_admin :: "jv \<Rightarrow> bool" where
  "role_is_admin policy = strict_eq (jprop policy ''role'') (JStr ''admin'')"

section \<open>Building the patches of a money request\<close>

text \<open>
  What \<open>buildOnyxDataForMoneyRequest\<close> and \<open>getReceiptError\<close> use from other
  modules: helper functions and constants, as parameters. \<open>getDBTime\<close> and the error
  builders read the clock; the value they return is a parameter too.
\<close>

record deps =
  isScanRequest :: "jv \<Rightarrow> bool"
  isPolicyAdmin :: "jv \<Rightarrow> bool"
  getDBTime :: jv
  getMicroSecondOnyxError :: "jv \<Rightarrow> jv"
  getMicroSecondOnyxErrorObject :: "jv \<Rightarrow> jv"
  getViolationsOnyxData :: "jv \<Rightarrow> jv \<Rightarrow> jv \<Rightarrow> jv \<Rightarrow> jv \<Rightarrow> patch option"
  RECEIPT_ERROR :: jv
  OPTIMISTIC_TRANSACTION_ID :: jv
  PENDING_ADD :: jv
  PENDING_UPDATE :: jv
  PENDING_DELETE :: jv

definition getReceiptError :: "deps \<Rightarrow> jv \<Rightarrow> jv \<Rightarrow> bool \<Rightarrow> jv" where
  "getReceiptError d receipt filename isScan =
     (if isEmpty receipt \<or> \<not> isScan
        then getMicroSecondOnyxError d (JStr ''iou.error.genericCreateFailureMessage'')
      else getMicroSecondOnyxErrorObject d
             (object [Prop ''error'' (RECEIPT_ERROR d),
                      Prop ''source'' (jprop receipt ''source''),
                      Prop ''filename'' filename]))"

text \<open>
  The entries of the three lists of \<open>buildOnyxDataForMoneyRequest\<close>, one definition
  per entry, in the order of the source. \<open>ocr\<close> is the local
  \<open>outstandingChildRequest\<close>, \<open>message0\<close> is \<open>iouAction.message[0]\<close> and
  \<open>rerr\<close> is the receipt error that \<open>failureData\<close> attaches.
\<close>

definition opt_chatReport :: "deps \<Rightarrow> jv \<Rightarrow> jv \<Rightarrow> bool \<Rightarrow> jv \<Rightarrow> patch" where
  "opt_chatReport d chatReport iouReport isNewChatReport ocr =
    \<lparr>onyxMethod = (if isNewChatReport then SET else MERGE),
     key = Coll REPORT (to_string (jprop chatReport ''reportID'')),
     val = object
       [Spread chatReport,
        Prop ''lastReadTime'' (getDBTime d),
        Prop ''lastMessageTranslationKey'' (JStr []),
        Prop ''iouReportID'' (jprop iouReport ''reportID''),
        Spread ocr,
        Spread (if isNewChatReport
                then object [Prop ''pendingFields'' (object [Prop ''createChat'' (PENDING_ADD d)])]
                else object [])]\<rparr>"

definition opt_iouReport :: "deps \<Rightarrow> jv \<Rightarrow> bool \<Rightarrow> jv \<Rightarrow> patch" where
  "opt_iouReport d iouReport isNewIOUReport message0 =
    \<lparr>onyxMethod = (if isNewIOUReport then SET else MERGE),
     key = Coll REPORT (to_string (jprop iouReport ''reportID'')),
     val = object
       [Spread iouReport,
        Prop ''lastMessageText'' (jprop message0 ''text''),
        Prop ''lastMessageHtml'' (jprop message0 ''html''),
        Prop ''pendingFields''
          (object [Spread (if isNewIOUReport then object [Prop ''createChat'' (PENDING_ADD d)]
                           else object [Prop ''preview'' (PENDING_UPDATE d)])])]\<rparr>"

definition opt_transaction :: "jv \<Rightarrow> patch" where
  "opt_transaction transaction =
    \<lparr>onyxMethod = SET,
     key = Coll TRANSACTION (to_string (jprop transaction ''transactionID'')),
     val = transaction\<rparr>"

definition opt_chatActions :: "jv \<Rightarrow> jv \<Rightarrow> jv \<Rightarrow> bool \<Rightarrow> patch" where
  "opt_chatActions chatReport chatCreatedAction reportPreviewAction isNewChatReport =
    \<lparr>onyxMethod = (if isNewChatReport then SET else MERGE),
     key = Coll REPORT_ACTIONS (to_string (jprop chatReport ''reportID'')),
     val = object
       [Spread (if isNewChatReport
                then object [Prop (to_string (jprop chatCreatedAction ''reportActionID'')) chatCreatedAction]
                else object []),
        Prop (to_string (jprop reportPreviewAction ''reportActionID'')) reportPreviewAction]\<rparr>"

definition opt_iouActions :: "jv \<Rightarrow> jv \<Rightarrow> jv \<Rightarrow> bool \<Rightarrow> patch" where
  "opt_iouActions iouReport iouCreatedAction iouAction isNewIOUReport =
    \<lparr>onyxMethod = (if isNewIOUReport then SET else MERGE),
     key = Coll REPORT_ACTIONS (to_string (jprop iouReport ''reportID'')),
     val = object
       [Spread (if isNewIOUReport
                then object [Prop (to_string (jprop iouCreatedAction ''reportActionID'')) iouCreatedAction]
                else object []),
        Prop (to_string (jprop iouAction ''reportActionID'')) iouAction]\<rparr>"

definition clear_draft :: "deps \<Rightarrow> patch" where
  "clear_draft d =
    \<lparr>onyxMethod = SET,
     key = Coll TRANSACTION_DRAFT (to_string (OPTIMISTIC_TRANSACTION_ID d)),
     val = JNull\<rparr>"

definition opt_recently_used :: "jv \<Rightarrow> jv \<Rightarrow> jv \<Rightarrow> jv \<Rightarrow> patch list" where
  "opt_recently_used iouReport optimisticPersonalDetailListAction
      optimisticPolicyRecentlyUsedCategories optimisticPolicyRecentlyUsedTags =
   (if \<not> isEmpty optimisticPolicyRecentlyUsedCategories
      then [\<lparr>onyxMethod = SET,
             key = Coll POLICY_RECENTLY_USED_CATEGORIES (to_string (jprop iouReport ''policyID'')),
             val = optimisticPolicyRecentlyUsedCategories\<rparr>]
      else [])
   @ (if \<not> isEmpty optimisticPolicyRecentlyUsedTags
      then [\<lparr>onyxMethod = MERGE,
             key = Coll POLICY_RECENTLY_USED_TAGS (to_string (jprop iouReport ''policyID'')),
             val = optimisticPolicyRecentlyUsedTags\<rparr>]
      else [])
   @ (if \<not> isEmpty optimisticPersonalDetailListAction
      then [\<lparr>onyxMethod = MERGE,
             key = PERSONAL_DETAILS_LIST,
             val = optimisticPersonalDetailListAction\<rparr>]
      else [])"

definition mr_optimisticData ::
  "deps \<Rightarrow> jv \<Rightarrow> jv \<Rightarrow> jv \<Rightarrow> jv \<Rightarrow> jv \<Rightarrow> jv \<Rightarrow> jv \<Rightarrow> jv \<Rightarrow> jv \<Rightarrow> jv \<Rightarrow> bool \<Rightarrow> bool \<Rightarrow> jv
     \<Rightarrow> jv \<Rightarrow> patch list" where
  "mr_optimisticData d chatReport iouReport transaction chatCreatedAction iouCreatedAction
      iouAction optimisticPersonalDetailListAction reportPreviewAction
      optimisticPolicyRecentlyUsedCategories optimisticPolicyRecentlyUsedTags
      isNewChatReport isNewIOUReport ocr message0 =
   [opt_chatReport d chatReport iouReport isNewChatReport ocr,
    opt_iouReport d iouReport isNewIOUReport message0,
    opt_transaction transaction,
    opt_chatActions chatReport chatCreatedAction reportPreviewAction isNewChatReport,
    opt_iouActions iouReport iouCreatedAction iouAction isNewIOUReport,
    clear_draft d]
   @ opt_recently_used iouReport optimisticPersonalDetailListAction
       optimisticPolicyRecentlyUsedCategories optimisticPolicyRecentlyUsedTags"

definition succ_chatReport :: "jv \<Rightarrow> patch" where
  "succ_chatReport chatReport =
    \<lparr>onyxMethod = MERGE,
     key = Coll REPORT (to_string (jprop chatReport ''reportID'')),
     val = object [Prop ''pendingFields'' JNull, Prop ''errorFields'' JNull]\<rparr>"

definition succ_iouReport :: "jv \<Rightarrow> patch" where
  "succ_iouReport iouReport =
    \<lparr>onyxMethod = MERGE,
     key = Coll REPORT (to_string (jprop iouReport ''reportID'')),
     val = object [Prop ''pendingFields'' JNull, Prop ''errorFields'' JNull]\<rparr>"

definition succ_transaction :: "jv \<Rightarrow> patch" where
  "succ_transaction transaction =
    \<lparr>onyxMethod = MERGE,
     key = Coll TRANSACTION (to_string (jprop transaction ''transactionID'')),
     val = object [Prop ''pendingAction'' JNull, Prop ''pendingFields'' JNull]\<rparr>"

definition succ_chatActions :: "jv \<Rightarrow> jv \<Rightarrow> jv \<Rightarrow> bool \<Rightarrow> patch" where
  "succ_chatActions chatReport chatCreatedAction reportPreviewAction isNewChatReport =
    \<lparr>onyxMethod = MERGE,
     key = Coll REPORT_ACTIONS (to_string (jprop chatReport ''reportID'')),
     val = object
       [Spread (if isNewChatReport
                then object [Prop (to_string (jprop chatCreatedAction ''reportActionID''))
                               (object [Prop ''pendingAction'' JNull, Prop ''errors'' JNull])]
                else object []),
        Prop (to_string (jprop reportPreviewAction ''reportActionID''))
          (object [Prop ''pendingAction'' JNull])]\<rparr>"

definition succ_iouActions :: "jv \<Rightarrow> jv \<Rightarrow> jv \<Rightarrow> bool \<Rightarrow> patch" where
  "succ_iouActions iouReport iouCreatedAction iouAction isNewIOUReport =
    \<lparr>onyxMethod = MERGE,
     key = Coll REPORT_ACTIONS (to_string (jprop iouReport ''reportID'')),
     val = object
       [Spread (if isNewIOUReport
                then object [Prop (to_string (jprop iouCreatedAction ''reportActionID''))
                               (object [Prop ''pendingAction'' JNull, Prop ''errors'' JNull])]
                else object []),
        Prop (to_string (jprop iouAction ''reportActionID''))
          (object [Prop ''pendingAction'' JNull, Prop ''errors'' JNull])]\<rparr>"

definition mr_successData ::
  "jv \<Rightarrow> jv \<Rightarrow> jv \<Rightarrow> jv \<Rightarrow> jv \<Rightarrow> jv \<Rightarrow> jv \<Rightarrow> bool \<Rightarrow> bool \<Rightarrow> patch list" where
  "mr_successData chatReport iouReport transaction chatCreatedAction iouCreatedAction
      iouAction reportPreviewAction isNewChatReport isNewIOUReport =
   (if isNewChatReport then [succ_chatReport chatReport] else [])
   @
   [succ_iouReport iouReport,
    succ_transaction transaction,
    succ_chatActions chatReport chatCreatedAction reportPreviewAction isNewChatReport,
    succ_iouActions iouReport iouCreatedAction iouAction isNewIOUReport]"

definition fail_chatReport :: "deps \<Rightarrow> jv \<Rightarrow> bool \<Rightarrow> patch" where
  "fail_chatReport d chatReport isNewChatReport =
    \<lparr>onyxMethod = MERGE,
     key = Coll REPORT (to_string (jprop chatReport ''reportID'')),
     val = object
       [Prop ''iouReportID'' (jprop chatReport ''iouReportID''),
        Prop ''lastReadTime'' (jprop chatReport ''lastReadTime''),
        Prop ''pendingFields'' JNull,
        Prop ''hasOutstandingChildRequest'' (jprop chatReport ''hasOutstandingChildRequest''),
        Spread (if isNewChatReport
                then object [Prop ''errorFields''
                       (object [Prop ''createChat''
                          (getMicroSecondOnyxError d (JStr ''report.genericCreateReportFailureMessage''))])]
                else object [])]\<rparr>"

definition fail_iouReport :: "deps \<Rightarrow> jv \<Rightarrow> bool \<Rightarrow> patch" where
  "fail_iouReport d iouReport isNewIOUReport =
    \<lparr>onyxMethod = MERGE,
     key = Coll REPORT (to_string (jprop iouReport ''reportID'')),
     val = object
       [Prop ''pendingFields'' JNull,
        Prop ''errorFields''
          (object [Spread (if isNewIOUReport
                           then object [Prop ''createChat''
                                  (getMicroSecondOnyxError d (JStr ''report.genericCreateReportFailureMessage''))]
                           else object [])])]\<rparr>"

definition fail_transaction :: "deps \<Rightarrow> jv \<Rightarrow> patch" where
  "fail_transaction d transaction =
    \<lparr>onyxMethod = MERGE,
     key = Coll TRANSACTION (to_string (jprop transaction ''transactionID'')),
     val = object
       [Prop ''errors'' (getMicroSecondOnyxError d (JStr ''iou.error.genericCreateFailureMessage'')),
        Prop ''pendingAction'' JNull,
        Prop ''pendingFields'' JNull]\<rparr>"

definition fail_chatActions :: "deps \<Rightarrow> jv \<Rightarrow> jv \<Rightarrow> jv \<Rightarrow> bool \<Rightarrow> jv \<Rightarrow> patch" where
  "fail_chatActions d chatReport chatCreatedAction reportPreviewAction isNewChatReport rerr =
    \<lparr>onyxMethod = MERGE,
     key = Coll REPORT_ACTIONS (to_string (jprop chatReport ''reportID'')),
     val = object
       [Spread (if isNewChatReport
                then object
                  [Prop (to_string (jprop chatCreatedAction ''reportActionID''))
                     (object [Prop ''errors'' rerr]),
                   Prop (to_string (jprop reportPreviewAction ''reportActionID''))
                     (object [Prop ''errors'' (getMicroSecondOnyxError d JNull)])]
                else object
                  [Prop (to_string (jprop reportPreviewAction ''reportActionID''))
                     (object [Prop ''created'' (jprop reportPreviewAction ''created''),
                              Prop ''errors'' rerr])])]\<rparr>"

definition fail_iouActions :: "deps \<Rightarrow> jv \<Rightarrow> jv \<Rightarrow> jv \<Rightarrow> bool \<Rightarrow> jv \<Rightarrow> patch" where
  "fail_iouActions d iouReport iouCreatedAction iouAction isNewIOUReport rerr =
    \<lparr>onyxMethod = MERGE,
     key = Coll REPORT_ACTIONS (to_string (jprop iouReport ''reportID'')),
     val = object
       [Spread (if isNewIOUReport
                then object
                  [Prop (to_string (jprop iouCreatedAction ''reportActionID''))
                     (object [Prop ''errors'' rerr]),
                   Prop (to_string (jprop iouAction ''reportActionID''))
                     (object [Prop ''errors'' (getMicroSecondOnyxError d JNull)])]
                else object
                  [Prop (to_string (jprop iouAction ''reportActionID''))
                     (object [Prop ''errors'' rerr])])]\<rparr>"

definition mr_failureData ::
  "deps \<Rightarrow> jv \<Rightarrow> jv \<Rightarrow> jv \<Rightarrow> jv \<Rightarrow> jv \<Rightarrow> jv \<Rightarrow> jv \<Rightarrow> bool \<Rightarrow> bool \<Rightarrow> jv \<Rightarrow> patch list" where
  "mr_failureData d chatReport iouReport transaction chatCreatedAction iouCreatedAction
      iouAction reportPreviewAction isNewChatReport isNewIOUReport rerr =
   [fail_chatReport d chatReport isNewChatReport,
    fail_iouReport d iouReport isNewIOUReport,
    fail_transaction d transaction,
    clear_draft d,
    fail_chatActions d chatReport chatCreatedAction reportPreviewAction isNewChatReport rerr,
    fail_iouActions d iouReport iouCreatedAction iouAction isNewIOUReport rerr]"

text \<open>
  \<open>buildOnyxDataForMoneyRequest\<close>. The last parameter defaults to \<open>true\<close> when the
  caller leaves it out. Reading a property of a missing object throws, so the result is
  \<open>None\<close> when one of the objects the body dereferences is \<open>null\<close> or \<open>undefined\<close>;
  the two created actions are read only when their report is new.
\<close>

definition buildOnyxDataForMoneyRequest ::
  "deps \<Rightarrow> jv \<Rightarrow> jv \<Rightarrow> jv \<Rightarrow> jv \<Rightarrow> jv \<Rightarrow> jv \<Rightarrow> jv \<Rightarrow> jv \<Rightarrow> jv \<Rightarrow> jv \<Rightarrow> bool \<Rightarrow> bool \<Rightarrow> jv \<Rightarrow> jv \<Rightarrow> jv \<Rightarrow> jv
     \<Rightarrow> (patch list \<times> patch list \<times> patch list) option" where
  "buildOnyxDataForMoneyRequest d chatReport iouReport transaction chatCreatedAction
      iouCreatedAction iouAction optimisticPersonalDetailListAction reportPreviewAction
      optimisticPolicyRecentlyUsedCategories optimisticPolicyRecentlyUsedTags
      isNewChatReport isNewIOUReport policy policyTags policyCategories needsArg =
   (let needsToBeManuallySubmitted = (if needsArg = JUndef then JBool True else needsArg);
        isScan = isScanRequest d transaction;
        outstandingChildRequest =
          getOutstandingChildRequest (isPolicyAdmin d) needsToBeManuallySubmitted policy
    in do {
      _ \<leftarrow> jmember chatReport ''reportID'';
      _ \<leftarrow> jmember iouReport ''reportID'';
      message \<leftarrow> jmember iouAction ''message'';
      message0 \<leftarrow> index0 message;
      _ \<leftarrow> jmember message0 ''text'';
      _ \<leftarrow> jmember transaction ''transactionID'';
      _ \<leftarrow> (if isNewChatReport then jmember chatCreatedAction ''reportActionID'' else Some JUndef);
      _ \<leftarrow> jmember reportPreviewAction ''reportActionID'';
      _ \<leftarrow> (if isNewIOUReport then jmember iouCreatedAction ''reportActionID'' else Some JUndef);
      filename \<leftarrow> (if truthy (jprop transaction ''filename'') then Some (jprop transaction ''filename'')
                   else jmember (jprop transaction ''receipt'') ''filename'');
      let rerr = getReceiptError d (jprop transaction ''receipt'') filename isScan;
      let optimisticData = mr_optimisticData d chatReport iouReport transaction chatCreatedAction
            iouCreatedAction iouAction optimisticPersonalDetailListAction reportPreviewAction
            optimisticPolicyRecentlyUsedCategories optimisticPolicyRecentlyUsedTags
            isNewChatReport isNewIOUReport outstandingChildRequest message0;
      let successData = mr_successData chatReport iouReport transaction chatCreatedAction
            iouCreatedAction iouAction reportPreviewAction isNewChatReport isNewIOUReport;
      let failureData = mr_failureData d chatReport iouReport transaction chatCreatedAction
            iouCreatedAction iouAction reportPreviewAction isNewChatReport isNewIOUReport rerr;
      if \<not> truthy policy \<or> \<not> truthy (jprop policy ''id'')
      then Some (optimisticData, successData, failureData)
      else (case getViolationsOnyxData d transaction (jprop policy ''requiresTag'') policyTags
                   (jprop policy ''requiresCategory'') policyCategories of
              None \<Rightarrow> Some (optimisticData, successData, failureData)
            | Some violationsOnyxData \<Rightarrow>
                Some (optimisticData @ [violationsOnyxData],
                      successData,
                      failureData @
                        [\<lparr>onyxMethod = SET,
                          key = Coll TRANSACTION_VIOLATIONS (to_string (jprop transaction ''transactionID'')),
                          val = JArr []\<rparr>]))
    })"

text \<open>The violations update that \<open>buildOnyxDataForMoneyRequest\<close> appends, when the policy
  is set and has an id.\<close>

definition mr_violations :: "deps \<Rightarrow> jv \<Rightarrow> jv \<Rightarrow> jv \<Rightarrow> jv \<Rightarrow> patch option" where
  "mr_violations d transaction policy policyTags policyCategories =
    (if \<not> truthy policy \<or> \<not> truthy (jprop policy ''id'') then None
     else getViolationsOnyxData d transaction (jprop policy ''requiresTag'') policyTags
                   (jprop policy ''requiresCategory'') policyCategories)"

text \<open>The store after the optimistic patches and then the success patches, or the
  failure patches; a field of a document of that store.\<close>

definition on_success :: "store \<Rightarrow> (patch list \<times> patch list \<times> patch list) option \<Rightarrow> store option" where
  "on_success s r =
     (case r of None \<Rightarrow> None
      | Some (optimisticData, successData, failureData) \<Rightarrow>
          Some (apply_patches (apply_patches s optimisticData) successData))"

definition on_failure :: "store \<Rightarrow> (patch list \<times> patch list \<times> patch list) option \<Rightarrow> store option" where
  "on_failure s r =
     (case r of None \<Rightarrow> None
      | Some (optimisticData, successData, failureData) \<Rightarrow>
          Some (apply_patches (apply_patches s optimisticData) failureData))"

definition on_optimistic :: "store \<Rightarrow> (patch list \<times> patch list \<times> patch list) option \<Rightarrow> store option" where
  "on_optimistic s r =
     (case r of None \<Rightarrow> None
      | Some (optimisticData, successData, failureData) \<Rightarrow> Some (apply_patches s optimisticData))"

definition field_of :: "store option \<Rightarrow> okey \<Rightarrow> string \<Rightarrow> jv option" where
  "field_of r k f = (case r of None \<Rightarrow> None | Some s \<Rightarrow> Some (jprop (doc s k) f))"

section \<open>What a patch does to one field\<close>

text \<open>A patch leaves the field \<open>f\<close> of the document under \<open>k\<close> alone when it goes to
  another key or merges an object that does not mention \<open>f\<close>; it clears the field
  when it merges \<open>null\<close> into it; it writes \<open>v\<close> when it merges \<open>v\<close> into it.\<close>

definition leaves_field :: "patch \<Rightarrow> okey \<Rightarrow> string \<Rightarrow> bool" where
  "leaves_field p k f =
     (key p \<noteq> k \<or> (onyxMethod p = MERGE \<and> (\<exists>src. val p = JObj src \<and> map_of src f = None)))"

definition clears_field :: "patch \<Rightarrow> okey \<Rightarrow> string \<Rightarrow> bool" where
  "clears_field p k f =
     (key p = k \<and> onyxMethod p = MERGE \<and> (\<exists>src. val p = JObj src \<and> map_of src f = Some JNull))"

definition writes_field :: "patch \<Rightarrow> okey \<Rightarrow> string \<Rightarrow> jv \<Rightarrow> bool" where
  "writes_field p k f v =
     (key p = k \<and> onyxMethod p = MERGE \<and> (\<exists>src. val p = JObj src \<and> map_of src f = Some v))"

text \<open>A boolean, a number or a string.\<close>

definition is_leaf :: "jv \<Rightarrow> bool" where
  "is_leaf v = (case v of JBool b \<Rightarrow> True | JNum n \<Rightarrow> True | JStr s \<Rightarrow> True | _ \<Rightarrow> False)"

text \<open>The same one level down, for the field \<open>f\<close> of the entry \<open>a\<close> of a document
  (a report action inside the report-actions document of a report).\<close>

definition leaves_sub :: "patch \<Rightarrow> okey \<Rightarrow> string \<Rightarrow> string \<Rightarrow> bool" where
  "leaves_sub p k a f =
     (key p \<noteq> k \<or>
      (onyxMethod p = MERGE \<and>
       (\<exists>src. val p = JObj src \<and>
          (map_of src a = None \<or> (\<exists>sub. map_of src a = Some (JObj sub) \<and> map_of sub f = None)))))"

definition clears_sub :: "patch \<Rightarrow> okey \<Rightarrow> string \<Rightarrow> string \<Rightarrow> bool" where
  "clears_sub p k a f =
     (key p = k \<and> onyxMethod p = MERGE \<and>
      (\<exists>src sub. val p = JObj src \<and> map_of src a = Some (JObj sub) \<and> map_of sub f = Some JNull))"

section \<open>A sample request\<close>

text \<open>
  Concrete inputs at which the theorems below are instantiated: a request of 1000 on
  an existing chat (report 10) whose IOU report (report 20) held a total of 100.
\<close>

definition sample_deps :: deps where
  "sample_deps =
     \<lparr>isScanRequest = (\<lambda>t. False),
      isPolicyAdmin = role_is_admin,
      getDBTime = JStr ''t1'',
      getMicroSecondOnyxError = (\<lambda>m. JObj [(''t1'', m)]),
      getMicroSecondOnyxErrorObject = (\<lambda>e. JObj [(''t1'', e)]),
      getViolationsOnyxData = (\<lambda>t rt pt rc pc. None),
      RECEIPT_ERROR = JStr ''receiptError'',
      OPTIMISTIC_TRANSACTION_ID = JStr ''1'',
      PENDING_ADD = JStr ''add'',
      PENDING_UPDATE = JStr ''update'',
      PENDING_DELETE = JStr ''delete''\<rparr>"

definition sample_chatReport :: jv where
  "sample_chatReport =
     JObj [(''reportID'', JStr ''10''), (''iouReportID'', JStr ''20''),
           (''lastReadTime'', JStr ''t0''), (''hasOutstandingChildRequest'', JBool False)]"

definition sample_pending_chatReport :: jv where
  "sample_pending_chatReport =
     JObj [(''reportID'', JStr ''10''), (''iouReportID'', JStr ''20''),
           (''pendingFields'', JObj [(''createChat'', JStr ''add'')])]"

definition sample_stored_iouReport :: jv where
  "sample_stored_iouReport =
     JObj [(''reportID'', JStr ''20''), (''chatReportID'', JStr ''10''), (''total'', JNum 100),
           (''currency'', JStr ''USD''), (''lastMessageText'', JStr ''old'')]"

definition sample_iouReport :: jv where
  "sample_iouReport =
     JObj [(''reportID'', JStr ''20''), (''chatReportID'', JStr ''10''), (''total'', JNum 1100),
           (''currency'', JStr ''USD''), (''lastMessageText'', JStr ''old'')]"

definition sample_transaction :: jv where
  "sample_transaction =
     JObj [(''transactionID'', JStr ''30''), (''amount'', JNum 1000), (''currency'', JStr ''USD''),
           (''receipt'', JObj []), (''pendingAction'', JStr ''add'')]"

definition sample_iouAction :: jv where
  "sample_iouAction =
     JObj [(''reportActionID'', JStr ''50''),
           (''message'', JArr [JObj [(''text'', JStr ''new''), (''html'', JStr ''new'')]]),
           (''pendingAction'', JStr ''add'')]"

definition sample_previewAction :: jv where
  "sample_previewAction =
     JObj [(''reportActionID'', JStr ''40''), (''created'', JStr ''t0''),
           (''childMoneyRequestCount'', JNum 2), (''pendingAction'', JStr ''update'')]"

definition sample_store :: store where
  "sample_store =
     [Coll REPORT ''10'' \<mapsto> sample_chatReport, Coll REPORT ''20'' \<mapsto> sample_stored_iouReport]"

definition sample_pending_store :: store where
  "sample_pending_store =
     [Coll REPORT ''10'' \<mapsto> sample_pending_chatReport, Coll REPORT ''20'' \<mapsto> sample_stored_iouReport]"

text \<open>The patches of the sample request, for a given chat report.\<close>

definition sample_request :: "jv \<Rightarrow> (patch list \<times> patch list \<times> patch list) option" where
  "sample_request chatReport =
     buildOnyxDataForMoneyRequest sample_deps chatReport sample_iouReport sample_transaction
       JUndef JUndef sample_iouAction JUndef sample_previewAction (JArr []) (JObj [])
       False False JUndef JUndef JUndef (JBool True)"

section \<open>Approving and submitting an expense report\<close>

text \<open>
  What \<open>approveMoneyRequest\<close> and \<open>submitReport\<close> use from other modules: the two
  builders of the optimistic report action (given total, currency and report id), the
  lookups \<open>ReportUtils.getReport\<close> and \<open>ReportUtils.getPolicy\<close>, the account id of
  the current user and the constants \<open>CONST.REPORT.STATE_NUM.*\<close> and
  \<open>CONST.REPORT.STATUS_NUM.*\<close>.
\<close>

record report_deps =
  buildOptimisticApprovedReportAction :: "jv \<Rightarrow> jv \<Rightarrow> jv \<Rightarrow> jv"
  buildOptimisticSubmittedReportAction :: "jv \<Rightarrow> jv \<Rightarrow> jv \<Rightarrow> jv"
  getReport :: "jv \<Rightarrow> jv"
  getPolicy :: "jv \<Rightarrow> jv"
  currentUserAccountID :: jv
  STATE_NUM_OPEN :: jv
  STATE_NUM_SUBMITTED :: jv
  STATE_NUM_APPROVED :: jv
  STATUS_NUM_OPEN :: jv
  STATUS_NUM_SUBMITTED :: jv
  STATUS_NUM_APPROVED :: jv

text \<open>\<open>lodashGet(allNextSteps, key, null)\<close>: the cached next step of the report, \<open>null\<close>
  when there is none.\<close>

definition currentNextStep :: "store \<Rightarrow> jv \<Rightarrow> jv" where
  "currentNextStep s reportID =
     (case s (Coll NEXT_STEP (to_string reportID)) of
        None \<Rightarrow> JNull
      | Some v \<Rightarrow> (if v = JUndef then JNull else v))"

text \<open>\<open>lodashGet(action, 'message.0.text', '')\<close> and the same for \<open>html\<close>: a path that
  does not resolve gives the default and never throws.\<close>

definition message0_or_empty :: "jv \<Rightarrow> string \<Rightarrow> jv" where
  "message0_or_empty action f =
     (let m0 = (case index0 (jprop action ''message'') of None \<Rightarrow> JUndef | Some x \<Rightarrow> x);
          v = jprop m0 f
      in if v = JUndef then JStr [] else v)"

text \<open>
  \<open>approveMoneyRequest(expenseReport)\<close>: the three lists it hands to
  \<open>API.write('ApproveMoneyRequest', ...)\<close>. \<open>s\<close> is the store the module caches are
  read from.
\<close>

definition approveMoneyRequest ::
  "deps \<Rightarrow> report_deps \<Rightarrow> store \<Rightarrow> jv \<Rightarrow> (patch list \<times> patch list \<times> patch list) option" where
  "approveMoneyRequest d rd s expenseReport =
     do {
       reportID \<leftarrow> jmember expenseReport ''reportID'';
       let nextStep = currentNextStep s reportID;
       let optimisticApprovedReportAction =
             buildOptimisticApprovedReportAction rd (jprop expenseReport ''total'')
               (jprop expenseReport ''currency'') reportID;
       actionID \<leftarrow> jmember optimisticApprovedReportAction ''reportActionID'';
       message \<leftarrow> jmember optimisticApprovedReportAction ''message'';
       message0 \<leftarrow> index0 message;
       _ \<leftarrow> jmember message0 ''text'';
       let optimisticReportActionsData =
             \<lparr>onyxMethod = MERGE,
              key = Coll REPORT_ACTIONS (to_string reportID),
              val = object
                [Prop (to_string actionID)
                   (object [Spread optimisticApprovedReportAction,
                            Prop ''pendingAction'' (PENDING_ADD d)])]\<rparr>;
       let optimisticIOUReportData =
             \<lparr>onyxMethod = MERGE,
              key = Coll REPORT (to_string reportID),
              val = object
                [Spread expenseReport,
                 Prop ''lastMessageText'' (jprop message0 ''text''),
                 Prop ''lastMessageHtml'' (jprop message0 ''html''),
                 Prop ''stateNum'' (STATE_NUM_APPROVED rd),
                 Prop ''statusNum'' (STATUS_NUM_APPROVED rd)]\<rparr>;
       let optimisticData = [optimisticIOUReportData, optimisticReportActionsData];
       let successData =
             [\<lparr>onyxMethod = MERGE,
               key = Coll REPORT_ACTIONS (to_string reportID),
               val = object [Prop (to_string actionID) (object [Prop ''pendingAction'' JNull])]\<rparr>];
       let failureData =
             [\<lparr>onyxMethod = MERGE,
               key = Coll REPORT_ACTIONS (to_string reportID),
               val = object
                 [Prop (to_string (jprop expenseReport ''reportActionID''))
                    (object [Prop ''errors'' (getMicroSecondOnyxError d (JStr ''iou.error.other''))])]\<rparr>];
       Some
         (if nextStep \<noteq> JNull
          then (optimisticData @
                  [\<lparr>onyxMethod = SET, key = Coll NEXT_STEP (to_string reportID), val = JNull\<rparr>],
                successData,
                failureData @
                  [\<lparr>onyxMethod = MERGE, key = Coll NEXT_STEP (to_string reportID), val = nextStep\<rparr>])
          else (optimisticData, successData, failureData))
     }"

text \<open>\<open>submitReport(expenseReport)\<close>: the three lists it hands to
  \<open>API.write('SubmitReport', ...)\<close>, whose parameters read \<open>policy.submitsTo\<close>.\<close>

definition submitReport ::
  "deps \<Rightarrow> report_deps \<Rightarrow> store \<Rightarrow> jv \<Rightarrow> (patch list \<times> patch list \<times> patch list) option" where
  "submitReport d rd s expenseReport =
     do {
       reportID \<leftarrow> jmember expenseReport ''reportID'';
       let nextStep = currentNextStep s reportID;
       let optimisticSubmittedReportAction =
             buildOptimisticSubmittedReportAction rd (jprop expenseReport ''total'')
               (jprop expenseReport ''currency'') reportID;
       let parentReport = getReport rd (jprop expenseReport ''parentReportID'');
       let policy = getPolicy rd (jprop expenseReport ''policyID'');
       let isCurrentUserManager =
             strict_eq (currentUserAccountID rd) (jprop expenseReport ''managerID'');
       actionID \<leftarrow> jmember optimisticSubmittedReportAction ''reportActionID'';
       parentReportID \<leftarrow> jmember parentReport ''reportID'';
       let optimisticData =
             [\<lparr>onyxMethod = MERGE,
               key = Coll REPORT_ACTIONS (to_string reportID),
               val = object
                 [Prop (to_string actionID)
                    (object [Spread optimisticSubmittedReportAction,
                             Prop ''pendingAction'' (PENDING_ADD d)])]\<rparr>,
              \<lparr>onyxMethod = MERGE,
               key = Coll REPORT (to_string reportID),
               val = object
                 [Spread expenseReport,
                  Prop ''lastMessageText'' (message0_or_empty optimisticSubmittedReportAction ''text''),
                  Prop ''lastMessageHtml'' (message0_or_empty optimisticSubmittedReportAction ''html''),
                  Prop ''stateNum'' (STATE_NUM_SUBMITTED rd),
                  Prop ''statusNum'' (STATUS_NUM_SUBMITTED rd)]\<rparr>]
             @ (if truthy parentReportID
                then [\<lparr>onyxMethod = MERGE,
                       key = Coll REPORT (to_string parentReportID),
                       val = object
                         [Spread parentReport,
                          Prop ''hasOutstandingChildRequest'' (JBool isCurrentUserManager),
                          Prop ''iouReportID'' JNull]\<rparr>]
                else []);
       let successData =
             [\<lparr>onyxMethod = MERGE,
               key = Coll REPORT_ACTIONS (to_string reportID),
               val = object [Prop (to_string actionID) (object [Prop ''pendingAction'' JNull])]\<rparr>];
       let failureData =
             [\<lparr>onyxMethod = MERGE,
               key = Coll REPORT_ACTIONS (to_string reportID),
               val = object
                 [Prop (to_string actionID)
                    (object [Prop ''errors'' (getMicroSecondOnyxError d (JStr ''iou.error.other''))])]\<rparr>,
              \<lparr>onyxMethod = MERGE,
               key = Coll REPORT (to_string reportID),
               val = object
                 [Prop ''statusNum'' (STATUS_NUM_OPEN rd),
                  Prop ''stateNum'' (STATE_NUM_OPEN rd)]\<rparr>]
             @ (if truthy parentReportID
                then [\<lparr>onyxMethod = MERGE,
                       key = Coll REPORT (to_string parentReportID),
                       val = object
                         [Prop ''hasOutstandingChildRequest'' (jprop parentReport ''hasOutstandingChildRequest''),
                          Prop ''iouReportID'' reportID]\<rparr>]
                else []);
       _ \<leftarrow> jmember policy ''submitsTo'';
       Some
         (if nextStep \<noteq> JNull
          then (optimisticData @
                  [\<lparr>onyxMethod = SET, key = Coll NEXT_STEP (to_string reportID), val = JNull\<rparr>],
                successData,
                failureData @
                  [\<lparr>onyxMethod = MERGE, key = Coll NEXT_STEP (to_string reportID), val = nextStep\<rparr>])
          else (optimisticData, successData, failureData))
     }"

text \<open>A submitted expense report and the helpers at which the two functions are run:
  the state numbers are 0 (open), 1 (submitted) and 2 (approved) in the sample.\<close>

definition sample_report_deps :: report_deps where
  "sample_report_deps =
     \<lparr>buildOptimisticApprovedReportAction =
        (\<lambda>total currency reportID.
           JObj [(''reportActionID'', JStr ''90''), (''actionName'', JStr ''APPROVED''),
                 (''message'', JArr [JObj [(''text'', JStr ''approved''), (''html'', JStr ''approved'')]])]),
      buildOptimisticSubmittedReportAction =
        (\<lambda>total currency reportID.
           JObj [(''reportActionID'', JStr ''91''), (''actionName'', JStr ''SUBMITTED''),
                 (''message'', JArr [JObj [(''text'', JStr ''submitted''), (''html'', JStr ''submitted'')]])]),
      getReport = (\<lambda>reportID. JObj [(''reportID'', reportID), (''iouReportID'', JStr ''20'')]),
      getPolicy = (\<lambda>policyID. JObj [(''id'', policyID)]),
      currentUserAccountID = JNum 7,
      STATE_NUM_OPEN = JNum 0,
      STATE_NUM_SUBMITTED = JNum 1,
      STATE_NUM_APPROVED = JNum 2,
      STATUS_NUM_OPEN = JNum 0,
      STATUS_NUM_SUBMITTED = JNum 1,
      STATUS_NUM_APPROVED = JNum 2\<rparr>"

definition sample_submitted_report :: jv where
  "sample_submitted_report =
     JObj [(''reportID'', JStr ''20''), (''parentReportID'', JStr ''10''), (''policyID'', JStr ''P''),
           (''managerID'', JNum 8), (''total'', JNum (- 1000)), (''currency'', JStr ''USD''),
           (''stateNum'', JNum 1), (''statusNum'', JNum 1)]"

definition sample_open_report :: jv where
  "sample_open_report =
     JObj [(''reportID'', JStr ''20''), (''parentReportID'', JStr ''10''), (''policyID'', JStr ''P''),
           (''managerID'', JNum 8), (''total'', JNum (- 1000)), (''currency'', JStr ''USD''),
           (''stateNum'', JNum 0), (''statusNum'', JNum 0)]"

definition sample_submitted_store :: store where
  "sample_submitted_store = [Coll REPORT ''20'' \<mapsto> sample_submitted_report]"

definition sample_open_store :: store where
  "sample_open_store = [Coll REPORT ''20'' \<mapsto> sample_open_report]"

section \<open>Splitting a bill\<close>

text \<open>
  Modelled from the spec: \<open>IOUUtils.calculateAmount(numberOfParticipants, total, currency,
  isDefaultUser)\<close>, which is not part of these sources. Its first argument counts the
  participants without the current user (\<open>calculateAmount\<close> takes the current user into
  account, as the caller at \<open>completeSplitBill\<close> notes), so the participant count of
  the Split Allocation Algorithm is one more. The share is the floor of the total
  divided by the participant count, the remainder is the total minus the share times
  the participant count, the current user's amount is the share plus one when the
  remainder is positive, and every other participant's amount is the share. The
  currency plays no part.
\<close>

definition calculateAmount :: "nat \<Rightarrow> int \<Rightarrow> jv \<Rightarrow> bool \<Rightarrow> int" where
  "calculateAmount numberOfParticipants total' currency isDefaultUser =
     (let participantCount = int numberOfParticipants + 1;
          share = total' div participantCount;
          remainder = total' - share * participantCount
      in if isDefaultUser then share + (if remainder > 0 then 1 else 0) else share)"

text \<open>
  The \<open>amount\<close> column of the \<open>splits\<close> that \<open>createSplitsAndOnyxData\<close> returns: the
  current user's entry first, then one entry of \<open>splitAmount\<close> for every participant
  whose email is not the current user's. \<open>emails\<close> are the emails the loop computes
  for the participants, in order.
\<close>

definition split_amounts :: "string list \<Rightarrow> string \<Rightarrow> int \<Rightarrow> jv \<Rightarrow> int list" where
  "split_amounts emails currentUserEmailForIOUSplit amount currency =
     (let splitAmount = calculateAmount (length emails) amount currency False
      in calculateAmount (length emails) amount currency True
         # map (\<lambda>email. splitAmount) (filter (\<lambda>email. email \<noteq> currentUserEmailForIOUSplit) emails))"

section \<open>Editing a money request\<close>

text \<open>
  What \<open>editRegularMoneyRequest\<close>, \<open>deleteMoneyRequest\<close> and
  \<open>getMoneyRequestInformation\<close> use from \<open>ReportUtils\<close>, \<open>TransactionUtils\<close>,
  \<open>IOUUtils\<close>, \<open>CurrencyUtils\<close>, \<open>Localize\<close>, \<open>Policy\<close>, \<open>ReportActionsUtils\<close>
  and \<open>Permissions\<close>, as parameters. A helper with many positional arguments takes
  them as a list.
\<close>

record utils =
  isExpenseReport :: "jv \<Rightarrow> bool"
  updateIOUOwnerAndTotal :: "jv \<Rightarrow> jv \<Rightarrow> jv \<Rightarrow> jv \<Rightarrow> jv \<Rightarrow> jv"
  getAmount :: "jv \<Rightarrow> bool \<Rightarrow> jv"
  getCurrency :: "jv \<Rightarrow> jv"
  convertToDisplayString :: "jv \<Rightarrow> jv \<Rightarrow> jv"
  hasNonReimbursableTransactions :: "jv \<Rightarrow> bool"
  translateLocal :: "jv \<Rightarrow> jv \<Rightarrow> jv"
  getPersonalDetailsForAccountID :: "jv \<Rightarrow> jv"
  buildOptimisticPolicyRecentlyUsedCategories :: "jv \<Rightarrow> jv \<Rightarrow> jv"
  buildOptimisticPolicyRecentlyUsedTags :: "jv \<Rightarrow> jv \<Rightarrow> jv"
  getReportPreviewAction :: "jv \<Rightarrow> jv \<Rightarrow> jv"
  buildOptimisticModifiedExpenseReportAction :: "jv \<Rightarrow> jv \<Rightarrow> jv \<Rightarrow> bool \<Rightarrow> jv"
  getUpdatedTransaction :: "jv \<Rightarrow> jv \<Rightarrow> bool \<Rightarrow> jv"
  getIOUReportActionMessage :: "jv list \<Rightarrow> jv"
  hasReceipt :: "jv \<Rightarrow> bool"
  isReceiptBeingScanned :: "jv \<Rightarrow> bool"
  getTransactionDetails :: "jv \<Rightarrow> jv"
  getLastVisibleAction :: "jv \<Rightarrow> jv \<Rightarrow> jv"
  getLastVisibleMessage :: "jv \<Rightarrow> jv \<Rightarrow> jv"
  isDeletedParentAction :: "jv \<Rightarrow> bool"
  canUseViolations :: bool
  IOU_REPORT_ACTION_TYPE_CREATE :: jv














text \<open>Sample helpers and a sample store for an edit: transaction 30 of 1000 EUR sits in
  the USD report 20 (chat 10, transaction thread 25); the edit changes the amount to
  2000 and the currency to GBP.\<close>

definition sample_utils :: utils where
  "sample_utils =
     \<lparr>isExpenseReport = (\<lambda>r. strict_eq (jprop r ''type'') (JStr ''expense'')),
      updateIOUOwnerAndTotal =
        (\<lambda>r actor amount currency isDeleting.
           object [Spread r,
                   Prop ''total'' (if truthy isDeleting then js_sub (jprop r ''total'') amount
                                   else js_add (jprop r ''total'') amount)]),
      getAmount = (\<lambda>t isFromExpenseReport.
           if truthy (jprop t ''modifiedAmount'') then jprop t ''modifiedAmount'' else jprop t ''amount''),
      getCurrency = (\<lambda>t.
           if truthy (jprop t ''modifiedCurrency'') then jprop t ''modifiedCurrency''
           else jprop t ''currency''),
      convertToDisplayString = (\<lambda>amount currency. JStr (to_string currency @ to_string amount)),
      hasNonReimbursableTransactions = (\<lambda>r. False),
      translateLocal = (\<lambda>k args. JStr (to_string k)),
      getPersonalDetailsForAccountID = (\<lambda>a. JObj [(''login'', JStr ''payer@x.com'')]),
      buildOptimisticPolicyRecentlyUsedCategories = (\<lambda>policyID category. JArr []),
      buildOptimisticPolicyRecentlyUsedTags = (\<lambda>policyID tag. JObj []),
      getReportPreviewAction = (\<lambda>chatReportID iouReportID. sample_previewAction),
      buildOptimisticModifiedExpenseReportAction =
        (\<lambda>thread t changes isFromExpenseReport.
           JObj [(''reportActionID'', JStr ''80''), (''actorAccountID'', JNum 7),
                 (''pendingAction'', JStr ''add'')]),
      getUpdatedTransaction =
        (\<lambda>t changes isFromExpenseReport.
           object [Spread t,
                   Prop ''modifiedAmount'' (jprop changes ''amount''),
                   Prop ''pendingFields'' (JObj [(''amount'', JStr ''update'')])]),
      getIOUReportActionMessage = (\<lambda>args. JArr [JObj [(''text'', JStr ''m''), (''html'', JStr ''m'')]]),
      hasReceipt = (\<lambda>t. False),
      isReceiptBeingScanned = (\<lambda>t. False),
      getTransactionDetails = (\<lambda>t. t),
      getLastVisibleAction = (\<lambda>reportID actions. JUndef),
      getLastVisibleMessage = (\<lambda>reportID actions. JObj [(''lastMessageText'', JStr [])]),
      isDeletedParentAction = (\<lambda>a. False),
      canUseViolations = False,
      IOU_REPORT_ACTION_TYPE_CREATE = JStr ''create''\<rparr>"

definition sample_edit_store :: store where
  "sample_edit_store =
     [Coll REPORT ''10'' \<mapsto> JObj [(''reportID'', JStr ''10''), (''iouReportID'', JStr ''20''),
                                 (''lastMessageText'', JStr ''owes 10'')],
      Coll REPORT ''20'' \<mapsto> JObj [(''reportID'', JStr ''20''), (''chatReportID'', JStr ''10''),
                                 (''total'', JNum 1100), (''currency'', JStr ''USD''),
                                 (''lastMessageText'', JStr ''old'')],
      Coll REPORT ''25'' \<mapsto> JObj [(''reportID'', JStr ''25''), (''parentReportID'', JStr ''20''),
                                 (''parentReportActionID'', JStr ''50'')],
      Coll TRANSACTION ''30'' \<mapsto> JObj [(''transactionID'', JStr ''30''), (''amount'', JNum 1000),
                                      (''currency'', JStr ''EUR''), (''reportID'', JStr ''20'')]]"




section \<open>Deleting a money request\<close>

text \<open>\<open>x.length\<close> of a string or an array; \<open>undefined\<close> on anything else.\<close>

definition js_length :: "jv \<Rightarrow> jv" where
  "js_length x =
     (case x of JStr s \<Rightarrow> JNum (int (length s)) | JArr xs \<Rightarrow> JNum (int (length xs))
      | _ \<Rightarrow> jprop x ''length'')"

text \<open>\<open>x[0] = v\<close> on an array or an object.\<close>

definition set_index0 :: "jv \<Rightarrow> jv \<Rightarrow> jv" where
  "set_index0 x v =
     (case x of
        JArr xs \<Rightarrow> JArr (v # tl xs)
      | JObj fs \<Rightarrow> JObj (AList.update ''0'' v fs)
      | _ \<Rightarrow> x)"

text \<open>STEP 1 of \<open>deleteMoneyRequest\<close>: the documents it reads.\<close>

definition delete_iouReport :: "store \<Rightarrow> jv \<Rightarrow> jv" where
  "delete_iouReport s reportAction =
     doc s (Coll REPORT (to_string (jprop (jprop reportAction ''originalMessage'') ''IOUReportID'')))"

definition delete_chatReport :: "store \<Rightarrow> jv \<Rightarrow> jv" where
  "delete_chatReport s reportAction =
     doc s (Coll REPORT (to_string (jprop (delete_iouReport s reportAction) ''chatReportID'')))"

text \<open>STEP 2: whether the transaction thread goes, and whether the deleted request
  leaves a message.\<close>

definition shouldDeleteTransactionThread :: "jv \<Rightarrow> bool" where
  "shouldDeleteTransactionThread reportAction =
     (if truthy (jprop reportAction ''childReportID'')
      then strict_eq
             (if jprop reportAction ''childVisibleActionCount'' = JUndef then JNum 0
              else jprop reportAction ''childVisibleActionCount'')
             (JNum 0)
      else False)"

definition shouldShowDeletedRequestMessage :: "jv \<Rightarrow> jv" where
  "shouldShowDeletedRequestMessage reportAction =
     (if truthy (jprop reportAction ''childReportID'')
      then JBool (\<not> shouldDeleteTransactionThread reportAction)
      else jprop reportAction ''childReportID'')"

text \<open>STEP 3: the updated IOU report action, and whether the IOU report goes.\<close>

definition delete_updatedReportAction :: "deps \<Rightarrow> jv \<Rightarrow> jv" where
  "delete_updatedReportAction d reportAction =
     object
       [Prop (to_string (jprop reportAction ''reportActionID''))
          (object
             [Prop ''pendingAction''
                (if truthy (shouldShowDeletedRequestMessage reportAction)
                 then PENDING_UPDATE d else PENDING_DELETE d),
              Prop ''previousMessage'' (jprop reportAction ''message''),
              Prop ''message''
                (JArr [object [Prop ''type'' (JStr ''COMMENT''),
                               Prop ''html'' (JStr []),
                               Prop ''text'' (JStr []),
                               Prop ''isEdited'' (JBool True),
                               Prop ''isDeletedParentAction''
                                 (shouldShowDeletedRequestMessage reportAction)]]),
              Prop ''originalMessage'' (object [Prop ''IOUTransactionID'' JNull]),
              Prop ''errors'' JNull])]"

definition delete_lastMessageText :: "deps \<Rightarrow> utils \<Rightarrow> store \<Rightarrow> jv \<Rightarrow> jv" where
  "delete_lastMessageText d u s reportAction =
     jprop (getLastVisibleMessage u (jprop (delete_iouReport s reportAction) ''reportID'')
              (delete_updatedReportAction d reportAction)) ''lastMessageText''"

definition shouldDeleteIOUReport :: "deps \<Rightarrow> utils \<Rightarrow> store \<Rightarrow> jv \<Rightarrow> bool" where
  "shouldDeleteIOUReport d u s reportAction =
     (strict_eq (js_length (delete_lastMessageText d u s reportAction)) (JNum 0)
      \<and> \<not> isDeletedParentAction u
            (getLastVisibleAction u (jprop (delete_iouReport s reportAction) ''reportID'')
               (delete_updatedReportAction d reportAction))
      \<and> (\<not> truthy (jprop reportAction ''childReportID'') \<or> shouldDeleteTransactionThread reportAction))"

text \<open>STEP 4: the updated IOU report. The second component is the text of the preview
  message. \<open>IOUUtils.updateIOUOwnerAndTotal\<close> is taken to return a new object; were it
  to return its argument, the two assignments that follow it would also show in
  \<open>iouReport\<close>, which the failure data write back.\<close>

definition delete_updatedIOUReport :: "deps \<Rightarrow> utils \<Rightarrow> store \<Rightarrow> jv \<Rightarrow> jv \<Rightarrow> (jv \<times> jv) option" where
  "delete_updatedIOUReport d u s transactionID reportAction =
     (let iouReport = delete_iouReport s reportAction;
          transaction = doc s (Coll TRANSACTION (to_string transactionID));
          lastVisibleAction = getLastVisibleAction u (jprop iouReport ''reportID'')
             (delete_updatedReportAction d reportAction)
      in do {
        report1 \<leftarrow>
          (if isExpenseReport u iouReport
           then Some (object [Spread iouReport,
                              Prop ''total'' (js_add (jprop iouReport ''total'')
                                                (getAmount u transaction True))])
           else Some (updateIOUOwnerAndTotal u iouReport (jprop reportAction ''actorAccountID'')
                        (getAmount u transaction False) (getCurrency u transaction) (JBool True)));
        _ \<leftarrow> jmember report1 ''lastMessageText'';
        let report2 = object [Spread report1,
                              Prop ''lastMessageText'' (delete_lastMessageText d u s reportAction),
                              Prop ''lastVisibleActionCreated'' (jprop lastVisibleAction ''created'')];
        login \<leftarrow> jmember (getPersonalDetailsForAccountID u (jprop report2 ''managerID'')) ''login'';
        Some (report2,
              translateLocal u
                (JStr (if hasNonReimbursableTransactions u iouReport
                       then ''iou.payerSpentAmount'' else ''iou.payerOwesAmount''))
                (object [Prop ''payer'' (if truthy login then login else JStr []),
                         Prop ''amount'' (convertToDisplayString u (jprop report2 ''total'')
                                            (jprop report2 ''currency''))]))
      })"

text \<open>The report preview action after \<open>message[0]\<close> has been written. The copy
  \<open>updatedReportPreviewAction\<close> shares its \<open>message\<close> array with \<open>reportPreviewAction\<close>,
  so the write shows in both.\<close>

definition delete_previewWithMessage :: "jv \<Rightarrow> jv \<Rightarrow> bool \<Rightarrow> jv option" where
  "delete_previewWithMessage reportPreviewAction messageText deleteReport =
     do {
       message \<leftarrow> jmember reportPreviewAction ''message'';
       message0 \<leftarrow> index0 message;
       _ \<leftarrow> jmember message0 ''text'';
       Some (object
         [Spread reportPreviewAction,
          Prop ''message''
            (set_index0 message
               (object [Spread message0,
                        Prop ''text'' messageText,
                        Prop ''html'' (if deleteReport then JStr [] else messageText)]))])
     }"

definition delete_updatedReportPreviewAction :: "deps \<Rightarrow> jv \<Rightarrow> jv \<Rightarrow> bool \<Rightarrow> jv" where
  "delete_updatedReportPreviewAction d reportPreviewAction previewWithMessage deleteReport =
     object
       ([Spread previewWithMessage,
         Prop ''pendingAction'' (if deleteReport then PENDING_DELETE d else PENDING_UPDATE d)]
        @ (if js_gt (jprop reportPreviewAction ''childMoneyRequestCount'') (JNum 0)
           then [Prop ''childMoneyRequestCount''
                   (js_sub (jprop reportPreviewAction ''childMoneyRequestCount'') (JNum 1))]
           else []))"

text \<open>STEP 5: the three lists.\<close>

definition delete_optimisticData ::
  "utils \<Rightarrow> jv \<Rightarrow> jv \<Rightarrow> jv \<Rightarrow> jv \<Rightarrow> jv \<Rightarrow> jv \<Rightarrow> jv \<Rightarrow> jv \<Rightarrow> bool \<Rightarrow> bool \<Rightarrow> patch list" where
  "delete_optimisticData u transactionID reportAction iouReport chatReport reportPreviewAction
      updatedReportAction updatedIOUReport updatedReportPreviewAction deleteThread deleteReport =
     [\<lparr>onyxMethod = SET, key = Coll TRANSACTION (to_string transactionID), val = JNull\<rparr>]
     @ (if canUseViolations u
        then [\<lparr>onyxMethod = SET, key = Coll TRANSACTION_VIOLATIONS (to_string transactionID),
               val = JNull\<rparr>]
        else [])
     @ (if deleteThread
        then [\<lparr>onyxMethod = SET,
               key = Coll REPORT (to_string (jprop reportAction ''childReportID'')), val = JNull\<rparr>,
              \<lparr>onyxMethod = SET,
               key = Coll REPORT_ACTIONS (to_string (jprop reportAction ''childReportID'')),
               val = JNull\<rparr>]
        else [])
     @ [\<lparr>onyxMethod = MERGE,
         key = Coll REPORT_ACTIONS (to_string (jprop iouReport ''reportID'')),
         val = updatedReportAction\<rparr>,
        \<lparr>onyxMethod = MERGE,
         key = Coll REPORT (to_string (jprop iouReport ''reportID'')),
         val = updatedIOUReport\<rparr>,
        \<lparr>onyxMethod = MERGE,
         key = Coll REPORT_ACTIONS (to_string (jprop chatReport ''reportID'')),
         val = object [Prop (to_string (jprop reportPreviewAction ''reportActionID''))
                         updatedReportPreviewAction]\<rparr>]
     @ (if \<not> deleteReport
           \<and> strict_eq (jprop updatedReportPreviewAction ''childMoneyRequestCount'') (JNum 0)
        then [\<lparr>onyxMethod = MERGE,
               key = Coll REPORT (to_string (jprop chatReport ''reportID'')),
               val = object [Prop ''hasOutstandingChildRequest'' (JBool False)]\<rparr>]
        else [])
     @ (if deleteReport
        then [\<lparr>onyxMethod = MERGE,
               key = Coll REPORT (to_string (jprop chatReport ''reportID'')),
               val = object
                 [Prop ''hasOutstandingChildRequest'' (JBool False),
                  Prop ''iouReportID'' JNull,
                  Prop ''lastMessageText''
                    (jprop (getLastVisibleMessage u (jprop iouReport ''chatReportID'')
                              (object [Prop (to_string (jprop reportPreviewAction ''reportActionID''))
                                         JNull]))
                       ''lastMessageText''),
                  Prop ''lastVisibleActionCreated''
                    (jprop (getLastVisibleAction u (jprop iouReport ''chatReportID'')
                              (object [Prop (to_string (jprop reportPreviewAction ''reportActionID''))
                                         JNull]))
                       ''created'')]\<rparr>]
        else [])"

definition delete_successData :: "jv \<Rightarrow> jv \<Rightarrow> jv \<Rightarrow> jv \<Rightarrow> bool \<Rightarrow> patch list" where
  "delete_successData reportAction iouReport chatReport reportPreviewAction deleteReport =
     [\<lparr>onyxMethod = MERGE,
       key = Coll REPORT_ACTIONS (to_string (jprop iouReport ''reportID'')),
       val = object [Prop (to_string (jprop reportAction ''reportActionID''))
                       (if deleteReport then JNull else object [Prop ''pendingAction'' JNull])]\<rparr>,
      \<lparr>onyxMethod = MERGE,
       key = Coll REPORT_ACTIONS (to_string (jprop chatReport ''reportID'')),
       val = object [Prop (to_string (jprop reportPreviewAction ''reportActionID''))
                       (if deleteReport then JNull
                        else object [Prop ''pendingAction'' JNull, Prop ''errors'' JNull])]\<rparr>]
     @ (if deleteReport
        then [\<lparr>onyxMethod = SET,
               key = Coll REPORT (to_string (jprop iouReport ''reportID'')),
               val = JNull\<rparr>]
        else [])"

definition delete_failureData ::
  "deps \<Rightarrow> utils \<Rightarrow> store \<Rightarrow> jv \<Rightarrow> jv \<Rightarrow> jv \<Rightarrow> jv \<Rightarrow> jv \<Rightarrow> jv \<Rightarrow> bool \<Rightarrow> bool \<Rightarrow> patch list" where
  "delete_failureData d u s transactionID reportAction iouReport chatReport previewWithMessage
      updatedReportPreviewAction deleteThread deleteReport =
     [\<lparr>onyxMethod = SET, key = Coll TRANSACTION (to_string transactionID),
       val = doc s (Coll TRANSACTION (to_string transactionID))\<rparr>]
     @ (if canUseViolations u
        then [\<lparr>onyxMethod = SET, key = Coll TRANSACTION_VIOLATIONS (to_string transactionID),
               val = doc s (Coll TRANSACTION_VIOLATIONS (to_string transactionID))\<rparr>]
        else [])
     @ (if deleteThread
        then [\<lparr>onyxMethod = SET,
               key = Coll REPORT (to_string (jprop reportAction ''childReportID'')),
               val = doc s (Coll REPORT (to_string (jprop reportAction ''childReportID'')))\<rparr>]
        else [])
     @ [\<lparr>onyxMethod = MERGE,
         key = Coll REPORT_ACTIONS (to_string (jprop iouReport ''reportID'')),
         val = object [Prop (to_string (jprop reportAction ''reportActionID''))
                         (object [Spread reportAction,
                                  Prop ''pendingAction'' JNull,
                                  Prop ''errors''
                                    (getMicroSecondOnyxError d
                                       (JStr ''iou.error.genericDeleteFailureMessage''))])]\<rparr>,
        \<lparr>onyxMethod = (if deleteReport then SET else MERGE),
         key = Coll REPORT (to_string (jprop iouReport ''reportID'')),
         val = iouReport\<rparr>,
        \<lparr>onyxMethod = MERGE,
         key = Coll REPORT_ACTIONS (to_string (jprop chatReport ''reportID'')),
         val = object [Prop (to_string (jprop previewWithMessage ''reportActionID''))
                         (object [Spread previewWithMessage,
                                  Prop ''errors''
                                    (getMicroSecondOnyxError d
                                       (JStr ''iou.error.genericDeleteFailureMessage''))])]\<rparr>]
     @ (if deleteReport
        then [\<lparr>onyxMethod = MERGE,
               key = Coll REPORT (to_string (jprop chatReport ''reportID'')),
               val = chatReport\<rparr>]
        else [])
     @ (if \<not> deleteReport
           \<and> strict_eq (jprop updatedReportPreviewAction ''childMoneyRequestCount'') (JNum 0)
        then [\<lparr>onyxMethod = MERGE,
               key = Coll REPORT (to_string (jprop chatReport ''reportID'')),
               val = object [Prop ''hasOutstandingChildRequest'' (JBool True)]\<rparr>]
        else [])"

text \<open>
  \<open>deleteMoneyRequest(transactionID, reportAction, isSingleTransactionView)\<close>: the
  three lists it hands to \<open>API.write('DeleteMoneyRequest', ...)\<close>. The last parameter
  only decides where the user is taken afterwards.
\<close>

definition deleteMoneyRequest ::
  "deps \<Rightarrow> utils \<Rightarrow> store \<Rightarrow> jv \<Rightarrow> jv \<Rightarrow> bool \<Rightarrow> (patch list \<times> patch list \<times> patch list) option" where
  "deleteMoneyRequest d u s transactionID reportAction isSingleTransactionView =
     (let iouReport = delete_iouReport s reportAction;
          chatReport = delete_chatReport s reportAction;
          reportPreviewAction = getReportPreviewAction u (jprop iouReport ''chatReportID'')
            (jprop iouReport ''reportID'');
          deleteThread = shouldDeleteTransactionThread reportAction;
          deleteReport = shouldDeleteIOUReport d u s reportAction
      in do {
        originalMessage \<leftarrow> jmember reportAction ''originalMessage'';
        _ \<leftarrow> jmember originalMessage ''IOUReportID'';
        _ \<leftarrow> jmember iouReport ''chatReportID'';
        _ \<leftarrow> jmember (getLastVisibleMessage u (jprop iouReport ''reportID'')
                         (delete_updatedReportAction d reportAction)) ''lastMessageText'';
        _ \<leftarrow> jmember (delete_lastMessageText d u s reportAction) ''length'';
        updated \<leftarrow> delete_updatedIOUReport d u s transactionID reportAction;
        previewWithMessage \<leftarrow> delete_previewWithMessage reportPreviewAction (snd updated) deleteReport;
        let updatedReportPreviewAction =
              delete_updatedReportPreviewAction d reportPreviewAction previewWithMessage deleteReport;
        _ \<leftarrow> jmember chatReport ''reportID'';
        _ \<leftarrow> (if deleteReport
              then jmember (getLastVisibleMessage u (jprop iouReport ''chatReportID'')
                              (object [Prop (to_string (jprop reportPreviewAction ''reportActionID''))
                                         JNull])) ''lastMessageText''
              else Some JUndef);
        Some (delete_optimisticData u transactionID reportAction iouReport chatReport
                reportPreviewAction (delete_updatedReportAction d reportAction) (fst updated)
                updatedReportPreviewAction deleteThread deleteReport,
              delete_successData reportAction iouReport chatReport reportPreviewAction deleteReport,
              delete_failureData d u s transactionID reportAction iouReport chatReport
                previewWithMessage updatedReportPreviewAction deleteThread deleteReport)
      })"

text \<open>A sample deletion: the IOU action 50 of report 20 (chat 10), with no transaction
  thread, is the only request of the report.\<close>

definition sample_delete_action :: jv where
  "sample_delete_action =
     JObj [(''reportActionID'', JStr ''50''), (''actorAccountID'', JNum 7),
           (''originalMessage'', JObj [(''IOUReportID'', JStr ''20''), (''IOUTransactionID'', JStr ''30'')]),
           (''message'', JArr [JObj [(''text'', JStr ''requested''), (''html'', JStr ''requested'')]])]"

definition sample_delete_utils :: utils where
  "sample_delete_utils =
     sample_utils
       \<lparr>getReportPreviewAction :=
          (\<lambda>chatReportID iouReportID.
             JObj [(''reportActionID'', JStr ''40''), (''childMoneyRequestCount'', JNum 1),
                   (''message'', JArr [JObj [(''text'', JStr ''owes 10''), (''html'', JStr ''owes 10'')]])])\<rparr>"

section \<open>Gathering the information of a money request\<close>

text \<open>\<open>Number(x)\<close> on the values an account id takes: a number is itself, a string
  of decimal digits is its value, the empty string and \<open>null\<close> are 0, a boolean is 0 or
  1, anything else is \<open>NaN\<close>. The other spellings that \<open>Number\<close> reads (an exponent, a
  leading plus sign, surrounding blanks, a hexadecimal or a fractional numeral) are
  left out.\<close>

fun digits_value :: "string \<Rightarrow> nat \<Rightarrow> nat option" where
  "digits_value [] acc = Some acc"
| "digits_value (c # cs) acc =
     (if (48::nat) \<le> of_char c \<and> of_char c \<le> (57::nat)
      then digits_value cs (10 * acc + (of_char c - 48))
      else None)"

definition js_Number :: "jv \<Rightarrow> jv" where
  "js_Number x =
     (case x of
        JNum n \<Rightarrow> JNum n
      | JNull \<Rightarrow> JNum 0
      | JBool b \<Rightarrow> JNum (if b then 1 else 0)
      | JStr s \<Rightarrow>
          (case s of
             CHR ''-'' # d # ds \<Rightarrow>
               (case digits_value (d # ds) 0 of None \<Rightarrow> JNaN | Some n \<Rightarrow> JNum (- int n))
           | _ \<Rightarrow> (case digits_value s 0 of None \<Rightarrow> JNaN | Some n \<Rightarrow> JNum (int n)))
      | _ \<Rightarrow> JNaN)"

text \<open>
  What \<open>getMoneyRequestInformation\<close> uses beyond \<open>deps\<close> and \<open>utils\<close>: lookups and
  builders of \<open>ReportUtils\<close>, \<open>TransactionUtils\<close>, \<open>OptionsListUtils\<close>,
  \<open>PolicyUtils\<close>, \<open>DateUtils\<close>, \<open>UserUtils\<close> and \<open>LocalePhoneNumber\<close>, the
  session's account id and email, and two constants.
\<close>

record info_deps =
  addSMSDomainIfPhoneNumber :: "jv \<Rightarrow> jv"
  getChatByParticipants :: "jv \<Rightarrow> jv"
  buildOptimisticChatReport :: "jv \<Rightarrow> jv"
  hasIOUWaitingOnCurrentUserBankAccount :: "jv \<Rightarrow> bool"
  isPaidGroupPolicy :: "jv \<Rightarrow> bool"
  isDraftExpenseReport :: "jv \<Rightarrow> bool"
  buildOptimisticExpenseReport :: "jv list \<Rightarrow> jv"
  buildOptimisticIOUReport :: "jv list \<Rightarrow> jv"
  buildOptimisticTransaction :: "jv list \<Rightarrow> jv"
  buildOptimisticCreatedReportAction :: "jv \<Rightarrow> jv \<Rightarrow> jv"
  subtractMillisecondsFromDateTime :: "jv \<Rightarrow> jv \<Rightarrow> jv"
  buildOptimisticIOUReportAction :: "jv list \<Rightarrow> jv"
  updateReportPreview :: "jv list \<Rightarrow> jv"
  buildOptimisticReportPreview :: "jv list \<Rightarrow> jv"
  getDefaultAvatarURL :: "jv \<Rightarrow> jv"
  formatPhoneNumber :: "jv \<Rightarrow> jv"
  userAccountID :: jv
  currentUserEmail :: jv
  RECEIPT_STATE_SCANREADY :: jv
  REQUEST_TYPE_DISTANCE :: jv

text \<open>What \<open>getMoneyRequestInformation\<close> returns.\<close>

record request_information =
  info_payerAccountID :: jv
  info_payerEmail :: jv
  info_iouReport :: jv
  info_chatReport :: jv
  info_transaction :: jv
  info_iouAction :: jv
  info_createdChatReportActionID :: jv
  info_createdIOUReportActionID :: jv
  info_reportPreviewAction :: jv
  info_onyxData :: "patch list \<times> patch list \<times> patch list"

text \<open>STEP 1: the existing chat report or a new optimistic one, and whether it is new.\<close>

definition mri_chatReport :: "info_deps \<Rightarrow> store \<Rightarrow> jv \<Rightarrow> jv \<Rightarrow> jv \<times> bool" where
  "mri_chatReport i s report participant =
     (let payerAccountID = js_Number (jprop participant ''accountID'');
          c0 = (if truthy (jprop report ''reportID'') then report else JNull);
          c1 = (if \<not> truthy c0 \<and> truthy (jprop participant ''isPolicyExpenseChat'')
                then doc s (Coll REPORT (to_string (jprop participant ''reportID'')))
                else c0);
          c2 = (if \<not> truthy c1 then getChatByParticipants i (JArr [payerAccountID]) else c1)
      in if \<not> truthy c2 then (buildOptimisticChatReport i (JArr [payerAccountID]), True)
         else (c2, False))"

text \<open>STEP 2: whether the IOU report is new, the existing IOU report that is kept
  (\<open>null\<close> when there is none, or when it is on a paid policy and no longer a draft), and
  the report the request goes to: the existing one with its total updated, or a new
  optimistic one.\<close>

definition mri_isNewIOUReport :: "info_deps \<Rightarrow> jv \<Rightarrow> bool" where
  "mri_isNewIOUReport i chatReport =
     (\<not> truthy (jprop chatReport ''iouReportID'') \<or> hasIOUWaitingOnCurrentUserBankAccount i chatReport)"

definition mri_existingIOUReport :: "info_deps \<Rightarrow> store \<Rightarrow> jv \<Rightarrow> jv \<Rightarrow> jv \<Rightarrow> jv" where
  "mri_existingIOUReport i s participant policy chatReport =
     (let iouReport = (if mri_isNewIOUReport i chatReport then JNull
                       else doc s (Coll REPORT (to_string (jprop chatReport ''iouReportID''))))
      in if truthy (jprop participant ''isPolicyExpenseChat'')
            \<and> truthy iouReport \<and> isPaidGroupPolicy i policy \<and> \<not> isDraftExpenseReport i iouReport
         then JNull else iouReport)"

definition mri_needsToBeManuallySubmitted :: "info_deps \<Rightarrow> jv \<Rightarrow> jv \<Rightarrow> jv option" where
  "mri_needsToBeManuallySubmitted i participant policy =
     (if truthy (jprop participant ''isPolicyExpenseChat'')
      then (if isPaidGroupPolicy i policy
            then do {
              harvesting \<leftarrow> jmember policy ''isHarvestingEnabled'';
              Some (JBool (\<not> truthy harvesting))
            }
            else Some (JBool False))
      else Some (JBool True))"

definition mri_iouReport ::
  "utils \<Rightarrow> info_deps \<Rightarrow> jv \<Rightarrow> jv \<Rightarrow> jv \<Rightarrow> jv \<Rightarrow> jv \<Rightarrow> jv \<Rightarrow> jv" where
  "mri_iouReport u i participant chatReport existing payeeAccountID amount currency =
     (if truthy existing
      then (if truthy (jprop participant ''isPolicyExpenseChat'')
            then (if strict_eq (jprop existing ''currency'') currency
                  then object [Spread existing,
                               Prop ''total'' (js_sub (jprop existing ''total'') amount)]
                  else object [Spread existing])
            else updateIOUOwnerAndTotal u existing payeeAccountID amount currency JUndef)
      else (if truthy (jprop participant ''isPolicyExpenseChat'')
            then buildOptimisticExpenseReport i
                   [jprop chatReport ''reportID'', jprop chatReport ''policyID'', payeeAccountID,
                    amount, currency]
            else buildOptimisticIOUReport i
                   [payeeAccountID, js_Number (jprop participant ''accountID''), amount,
                    jprop chatReport ''reportID'', currency]))"

text \<open>STEP 3: the receipt object, the file name and the optimistic transaction.\<close>

definition mri_receiptObject :: "info_deps \<Rightarrow> jv \<Rightarrow> jv" where
  "mri_receiptObject i receipt =
     (if truthy receipt \<and> truthy (jprop receipt ''source'')
      then object [Prop ''source'' (jprop receipt ''source''),
                   Prop ''state'' (if truthy (jprop receipt ''state'') then jprop receipt ''state''
                                   else RECEIPT_STATE_SCANREADY i)]
      else object [])"

definition mri_transaction ::
  "deps \<Rightarrow> utils \<Rightarrow> info_deps \<Rightarrow> store \<Rightarrow> jv \<Rightarrow> jv list \<Rightarrow> jv" where
  "mri_transaction d u i s iouReport args =
     (let optimisticTransaction = buildOptimisticTransaction i args;
          existingTransaction = doc s (Coll TRANSACTION_DRAFT (to_string (OPTIMISTIC_TRANSACTION_ID d)))
      in if truthy existingTransaction
            \<and> strict_eq (jprop existingTransaction ''iouRequestType'') (REQUEST_TYPE_DISTANCE i)
         then merge_jv existingTransaction optimisticTransaction
         else optimisticTransaction)"

text \<open>
  \<open>getMoneyRequestInformation\<close>. \<open>payeeAccountIDArg\<close> and \<open>payeeEmailArg\<close> default to
  the session's account id and email. \<open>OnyxUtils.fastMerge\<close> is the store's merge.
\<close>

definition getMoneyRequestInformation ::
  "deps \<Rightarrow> utils \<Rightarrow> info_deps \<Rightarrow> store \<Rightarrow> jv \<Rightarrow> jv \<Rightarrow> jv \<Rightarrow> jv \<Rightarrow> jv \<Rightarrow> jv \<Rightarrow> jv \<Rightarrow> jv \<Rightarrow> jv \<Rightarrow> jv
     \<Rightarrow> jv \<Rightarrow> jv \<Rightarrow> jv \<Rightarrow> jv \<Rightarrow> jv \<Rightarrow> jv \<Rightarrow> jv \<Rightarrow> request_information option" where
  "getMoneyRequestInformation d u i s report participant comment amount currency created merchant
      payeeAccountIDArg payeeEmailArg receipt existingTransactionID category tag billable
      policy policyTags policyCategories =
     (let payeeAccountID = (if payeeAccountIDArg = JUndef then userAccountID i else payeeAccountIDArg);
          payeeEmail = (if payeeEmailArg = JUndef then currentUserEmail i else payeeEmailArg);
          payerAccountID = js_Number (jprop participant ''accountID'');
          chatReport = fst (mri_chatReport i s report participant);
          isNewChatReport = snd (mri_chatReport i s report participant);
          isNewIOUReport = mri_isNewIOUReport i chatReport;
          existing = mri_existingIOUReport i s participant policy chatReport;
          iouReport0 = mri_iouReport u i participant chatReport existing payeeAccountID amount currency;
          receiptObject = mri_receiptObject i receipt;
          filename = (if truthy receipt \<and> truthy (jprop receipt ''source'')
                      then jprop receipt ''name'' else JUndef);
          optimisticTransaction = mri_transaction d u i s iouReport0
            [if isExpenseReport u iouReport0 then js_neg amount else amount, currency,
             jprop iouReport0 ''reportID'', comment, created, JStr [], JStr [], merchant,
             receiptObject, filename, existingTransactionID, category, tag, billable];
          currentTime = getDBTime d;
          optimisticCreatedActionForChat = buildOptimisticCreatedReportAction i payeeEmail JUndef;
          optimisticCreatedActionForIOU = buildOptimisticCreatedReportAction i payeeEmail
            (subtractMillisecondsFromDateTime i currentTime (JNum 1));
          iouAction = buildOptimisticIOUReportAction i
            [IOU_REPORT_ACTION_TYPE_CREATE u, amount, currency, comment, JArr [participant],
             jprop optimisticTransaction ''transactionID'', JStr [], jprop iouReport0 ''reportID'',
             JBool False, JBool False, receiptObject, JBool False, currentTime];
          found = (if isNewIOUReport then JNull
                   else getReportPreviewAction u (jprop chatReport ''reportID'')
                          (jprop iouReport0 ''reportID''));
          reportPreviewAction =
            (if truthy found
             then updateReportPreview i [iouReport0, found, JBool False, comment, optimisticTransaction]
             else buildOptimisticReportPreview i [chatReport, iouReport0, comment, optimisticTransaction]);
          iouReport =
            (if truthy found then iouReport0
             else object [Spread iouReport0,
                          Prop ''parentReportActionID'' (jprop reportPreviewAction ''reportActionID'')]);
          optimisticPersonalDetailListAction =
            (if isNewChatReport
                \<and> \<not> truthy (jprop (doc s PERSONAL_DETAILS_LIST) (to_string payerAccountID))
             then object
               [Prop (to_string payerAccountID)
                  (object
                     [Prop ''accountID'' payerAccountID,
                      Prop ''avatar'' (getDefaultAvatarURL i payerAccountID),
                      Prop ''displayName''
                        (formatPhoneNumber i
                           (if truthy (jprop participant ''displayName'')
                            then jprop participant ''displayName''
                            else addSMSDomainIfPhoneNumber i (jprop participant ''login''))),
                      Prop ''login'' (jprop participant ''login''),
                      Prop ''isOptimisticPersonalDetail'' (JBool True)])]
             else JUndef)
      in do {
        _ \<leftarrow> jmember participant ''login'';
        _ \<leftarrow> jmember chatReport ''iouReportID'';
        needsToBeManuallySubmitted \<leftarrow> mri_needsToBeManuallySubmitted i participant policy;
        _ \<leftarrow> jmember iouReport0 ''reportID'';
        _ \<leftarrow> jmember optimisticTransaction ''transactionID'';
        _ \<leftarrow> (if truthy found then Some JUndef else jmember reportPreviewAction ''reportActionID'');
        onyxData \<leftarrow> buildOnyxDataForMoneyRequest d chatReport iouReport optimisticTransaction
          optimisticCreatedActionForChat optimisticCreatedActionForIOU iouAction
          optimisticPersonalDetailListAction reportPreviewAction
          (buildOptimisticPolicyRecentlyUsedCategories u (jprop iouReport0 ''policyID'') category)
          (buildOptimisticPolicyRecentlyUsedTags u (jprop iouReport0 ''policyID'') tag)
          isNewChatReport isNewIOUReport policy policyTags policyCategories needsToBeManuallySubmitted;
        Some \<lparr>info_payerAccountID = payerAccountID,
              info_payerEmail = addSMSDomainIfPhoneNumber i (jprop participant ''login''),
              info_iouReport = iouReport,
              info_chatReport = chatReport,
              info_transaction = optimisticTransaction,
              info_iouAction = iouAction,
              info_createdChatReportActionID =
                (if isNewChatReport then jprop optimisticCreatedActionForChat ''reportActionID''
                 else JNum 0),
              info_createdIOUReportActionID =
                (if isNewIOUReport then jprop optimisticCreatedActionForIOU ''reportActionID''
                 else JNum 0),
              info_reportPreviewAction = reportPreviewAction,
              info_onyxData = onyxData\<rparr>
      })"






section \<open>Facts about objects, merging and patches\<close>

lemma map_of_spread_into:
  "map_of (spread_into acc fs) k = (case map_of fs k of Some v \<Rightarrow> Some v | None \<Rightarrow> map_of acc k)"
  by (induction fs) (auto simp: update_conv')

lemma map_of_obj_add:
  "map_of (obj_add acc p) k =
     (case p of
        Prop k' v \<Rightarrow> (if k = k' then Some v else map_of acc k)
      | Spread x \<Rightarrow> (case map_of (own_props x) k of Some v \<Rightarrow> Some v | None \<Rightarrow> map_of acc k))"
  by (cases p) (auto simp: update_conv' map_of_spread_into)

lemma distinct_spread_into:
  "distinct (map fst acc) \<Longrightarrow> distinct (map fst (spread_into acc fs))"
  by (induction fs) (auto simp: distinct_update)

lemma distinct_obj_add: "distinct (map fst acc) \<Longrightarrow> distinct (map fst (obj_add acc p))"
  by (cases p) (auto simp: distinct_update distinct_spread_into)

lemma distinct_foldl_obj_add:
  "distinct (map fst acc) \<Longrightarrow> distinct (map fst (foldl obj_add acc ps))"
  by (induction ps arbitrary: acc) (auto simp: distinct_obj_add)

lemma distinct_object: "distinct (map fst (own_props (object ps)))"
  by (simp add: object_def distinct_foldl_obj_add)

lemma merge_fields_absent: "map_of s k = None \<Longrightarrow> map_of (merge_fields t s) k = map_of t k"
  by (induction s) (auto simp: update_conv' delete_conv' split: jv.splits if_splits)

lemma merge_fields_null: "map_of s k = Some JNull \<Longrightarrow> map_of (merge_fields t s) k = None"
  by (induction s) (auto simp: update_conv' delete_conv' split: jv.splits if_splits)

lemma merge_fields_value:
  "map_of s k = Some v \<Longrightarrow> v \<noteq> JUndef \<Longrightarrow> v \<noteq> JNull
     \<Longrightarrow> map_of (merge_fields t s) k = Some (merge_jv (jprop (JObj t) k) v)"
  by (induction s) (auto simp: update_conv' delete_conv' split: jv.splits if_splits)

lemma merge_fields_undef:
  "distinct (map fst s) \<Longrightarrow> map_of s k = Some JUndef \<Longrightarrow> map_of (merge_fields t s) k = map_of t k"
  by (induction s)
     (auto simp: update_conv' delete_conv' merge_fields_absent map_of_eq_None_iff
           split: jv.splits if_splits)

lemma getOutstandingChildRequest_cases:
  "getOutstandingChildRequest adm policy needs =
     (if \<not> truthy needs then JObj [(''hasOutstandingChildRequest'', JBool False)]
      else if adm policy then JObj [(''hasOutstandingChildRequest'', JBool True)]
      else JObj [])"
  by (simp add: getOutstandingChildRequest_def object_def)

lemma buildOnyxDataForMoneyRequest_SomeD:
  assumes "buildOnyxDataForMoneyRequest d chatReport iouReport transaction chatCreatedAction
      iouCreatedAction iouAction pd reportPreviewAction cats tags
      isNewChatReport isNewIOUReport policy policyTags policyCategories needsArg = Some (opt, succ, fail)"
  shows "\<exists>message0 rerr.
      opt = mr_optimisticData d chatReport iouReport transaction chatCreatedAction
            iouCreatedAction iouAction pd reportPreviewAction cats tags isNewChatReport isNewIOUReport
            (getOutstandingChildRequest (isPolicyAdmin d)
               (if needsArg = JUndef then JBool True else needsArg) policy)
            message0
            @ (case mr_violations d transaction policy policyTags policyCategories of
                 None \<Rightarrow> [] | Some v \<Rightarrow> [v])
      \<and> succ = mr_successData chatReport iouReport transaction chatCreatedAction
            iouCreatedAction iouAction reportPreviewAction isNewChatReport isNewIOUReport
      \<and> fail = mr_failureData d chatReport iouReport transaction chatCreatedAction
            iouCreatedAction iouAction reportPreviewAction isNewChatReport isNewIOUReport rerr
            @ (case mr_violations d transaction policy policyTags policyCategories of
                 None \<Rightarrow> []
               | Some v \<Rightarrow> [\<lparr>onyxMethod = SET,
                          key = Coll TRANSACTION_VIOLATIONS (to_string (jprop transaction ''transactionID'')),
                          val = JArr []\<rparr>])"
  using assms unfolding buildOnyxDataForMoneyRequest_def Let_def
  apply (simp only: bind_eq_Some_conv)
  apply (elim exE conjE)
  apply (cases "mr_violations d transaction policy policyTags policyCategories")
   apply (simp_all add: mr_violations_def split del: if_split)
   apply (simp_all split: if_split_asm)
   apply blast+
  done

lemma doc_apply_patch_other: "key p \<noteq> k \<Longrightarrow> doc (apply_patch s p) k = doc s k"
  by (simp add: apply_patch_def doc_def split: onyx_method.splits)

lemma doc_apply_patch_merge:
  "onyxMethod p = MERGE \<Longrightarrow> val p = JObj src \<Longrightarrow>
   doc (apply_patch s p) (key p) = JObj (merge_fields (own_props (doc s (key p))) src)"
  by (simp add: apply_patch_def doc_def)

lemma apply_patch_leaves:
  "leaves_field p k f \<Longrightarrow> jprop (doc (apply_patch s p) k) f = jprop (doc s k) f"
proof (cases "key p = k")
  case False
  then show ?thesis by (simp add: doc_apply_patch_other)
next
  case True
  assume "leaves_field p k f"
  with True obtain src where m: "onyxMethod p = MERGE" "val p = JObj src" "map_of src f = None"
    by (auto simp: leaves_field_def)
  show ?thesis
    using doc_apply_patch_merge[OF m(1,2), of s] m(3) True
    by (simp add: jprop_def merge_fields_absent)
qed

lemma apply_patches_Cons: "apply_patches s (p # ps) = apply_patches (apply_patch s p) ps"
  by (simp add: apply_patches_def)

lemma apply_patches_append: "apply_patches s (ps @ qs) = apply_patches (apply_patches s ps) qs"
  by (simp add: apply_patches_def)

lemma apply_patches_leaves:
  "\<forall>p \<in> set ps. leaves_field p k f \<Longrightarrow> jprop (doc (apply_patches s ps) k) f = jprop (doc s k) f"
  unfolding apply_patches_def
  by (induction ps arbitrary: s) (simp_all add: apply_patch_leaves)

lemma apply_patch_clears:
  "clears_field p k f \<Longrightarrow> jprop (doc (apply_patch s p) k) f = JUndef"
proof -
  assume "clears_field p k f"
  then obtain src where m: "key p = k" "onyxMethod p = MERGE" "val p = JObj src" "map_of src f = Some JNull"
    by (auto simp: clears_field_def)
  show ?thesis
    using doc_apply_patch_merge[OF m(2,3), of s] m(1,4)
    by (simp add: jprop_def merge_fields_null)
qed

lemma apply_patch_writes:
  "writes_field p k f v \<Longrightarrow> is_leaf v \<Longrightarrow> jprop (doc (apply_patch s p) k) f = v"
proof -
  assume w: "writes_field p k f v" and l: "is_leaf v"
  then obtain src where m: "key p = k" "onyxMethod p = MERGE" "val p = JObj src" "map_of src f = Some v"
    by (auto simp: writes_field_def)
  have v: "v \<noteq> JUndef" "v \<noteq> JNull" "merge_jv t v = v" for t
    using l by (cases v; simp add: is_leaf_def)+
  show ?thesis
    using doc_apply_patch_merge[OF m(2,3), of s] m(1) merge_fields_value[OF m(4) v(1,2)]
    by (simp add: jprop_def v(3))
qed

lemma apply_patches_cleared:
  assumes "clears_field p k f" and "\<forall>q \<in> set post. leaves_field q k f \<or> clears_field q k f"
  shows "jprop (doc (apply_patches s (pre @ p # post)) k) f = JUndef"
proof -
  have keep: "jprop (doc (apply_patches t post) k) f = JUndef"
    if "jprop (doc t k) f = JUndef" and "\<forall>q \<in> set post. leaves_field q k f \<or> clears_field q k f"
    for t post
    using that
  proof (induction post arbitrary: t)
    case Nil
    then show ?case by (simp add: apply_patches_def)
  next
    case (Cons q qs)
    have "jprop (doc (apply_patch t q) k) f = JUndef"
      using Cons.prems by (auto simp: apply_patch_leaves apply_patch_clears)
    then show ?case using Cons by (simp add: apply_patches_Cons)
  qed
  show ?thesis
    by (simp add: apply_patches_append apply_patches_Cons
          keep[OF apply_patch_clears[OF assms(1)] assms(2)])
qed

lemma apply_patches_written:
  assumes "writes_field p k f v" and "is_leaf v" and "\<forall>q \<in> set post. leaves_field q k f"
  shows "jprop (doc (apply_patches s (pre @ p # post)) k) f = v"
  by (simp add: apply_patches_append apply_patches_Cons apply_patches_leaves[OF assms(3)]
        apply_patch_writes[OF assms(1,2)])

subsection \<open>What each entry of the three lists does to a field\<close>

lemmas obj_simps = object_def update_conv' map_of_spread_into

lemma not_report_leaves:
  "(\<And>i. key p \<noteq> Coll REPORT i) \<Longrightarrow> leaves_field p (Coll REPORT x) f"
  by (simp add: leaves_field_def)

lemma not_actions_leaves:
  "(\<And>i. key p \<noteq> Coll REPORT_ACTIONS i) \<Longrightarrow> leaves_field p (Coll REPORT_ACTIONS x) f"
  by (simp add: leaves_field_def)

lemma fail_chatReport_writes:
  "f \<in> {''iouReportID'', ''lastReadTime'', ''hasOutstandingChildRequest''} \<Longrightarrow>
   writes_field (fail_chatReport d chatReport isNewChatReport)
     (Coll REPORT (to_string (jprop chatReport ''reportID''))) f (jprop chatReport f)"
  by (auto simp: writes_field_def fail_chatReport_def obj_simps)

lemma fail_chatReport_clears:
  "clears_field (fail_chatReport d chatReport isNewChatReport)
     (Coll REPORT (to_string (jprop chatReport ''reportID''))) ''pendingFields''"
  by (auto simp: clears_field_def fail_chatReport_def obj_simps)

lemma fail_chatReport_leaves:
  "f \<in> {''total'', ''lastMessageText'', ''lastMessageHtml''} \<Longrightarrow>
   leaves_field (fail_chatReport d chatReport isNewChatReport) k f"
  by (auto simp: leaves_field_def fail_chatReport_def obj_simps)

lemma fail_chatReport_leaves_or_clears:
  "leaves_field (fail_chatReport d chatReport isNewChatReport) k ''pendingFields''
   \<or> clears_field (fail_chatReport d chatReport isNewChatReport) k ''pendingFields''"
  by (auto simp: leaves_field_def clears_field_def fail_chatReport_def obj_simps)

lemma fail_iouReport_clears:
  "clears_field (fail_iouReport d iouReport isNewIOUReport)
     (Coll REPORT (to_string (jprop iouReport ''reportID''))) ''pendingFields''"
  by (auto simp: clears_field_def fail_iouReport_def obj_simps)

lemma fail_iouReport_leaves_or_clears:
  "leaves_field (fail_iouReport d iouReport isNewIOUReport) k ''pendingFields''
   \<or> clears_field (fail_iouReport d iouReport isNewIOUReport) k ''pendingFields''"
  by (auto simp: leaves_field_def clears_field_def fail_iouReport_def obj_simps)

lemma fail_iouReport_leaves:
  "f \<in> {''iouReportID'', ''lastReadTime'', ''hasOutstandingChildRequest'',
         ''total'', ''lastMessageText'', ''lastMessageHtml''} \<Longrightarrow>
   leaves_field (fail_iouReport d iouReport isNewIOUReport) k f"
  by (auto simp: leaves_field_def fail_iouReport_def obj_simps)

lemma fail_rest_leaves:
  "leaves_field (fail_transaction d transaction) (Coll REPORT x) f"
  "leaves_field (clear_draft d) (Coll REPORT x) f"
  "leaves_field (fail_chatActions d chatReport chatCreatedAction reportPreviewAction isNewChatReport rerr)
     (Coll REPORT x) f"
  "leaves_field (fail_iouActions d iouReport iouCreatedAction iouAction isNewIOUReport rerr)
     (Coll REPORT x) f"
  "leaves_field \<lparr>onyxMethod = SET, key = Coll TRANSACTION_VIOLATIONS i, val = JArr []\<rparr> (Coll REPORT x) f"
  by (simp_all add: leaves_field_def fail_transaction_def clear_draft_def fail_chatActions_def
        fail_iouActions_def)

lemma violations_fail_leaves:
  "\<forall>q \<in> set (case v of None \<Rightarrow> []
       | Some u \<Rightarrow> [\<lparr>onyxMethod = SET, key = Coll TRANSACTION_VIOLATIONS i, val = JArr []\<rparr>]).
     leaves_field q (Coll REPORT x) f"
  by (cases v) (simp_all add: leaves_field_def)

lemma merge_fields_sub:
  "map_of src a = Some (JObj sub) \<Longrightarrow>
   jprop (JObj (merge_fields (own_props d) src)) a = JObj (merge_fields (own_props (jprop d a)) sub)"
  by (simp add: jprop_def merge_fields_value)

lemma apply_patch_leaves_sub:
  assumes "leaves_sub p k a f"
  shows "jprop (jprop (doc (apply_patch s p) k) a) f = jprop (jprop (doc s k) a) f"
proof (cases "key p = k")
  case False
  then show ?thesis by (simp add: doc_apply_patch_other)
next
  case True
  with assms obtain src where m: "onyxMethod p = MERGE" "val p = JObj src"
    and c: "map_of src a = None \<or> (\<exists>sub. map_of src a = Some (JObj sub) \<and> map_of sub f = None)"
    by (auto simp: leaves_sub_def)
  from c show ?thesis
  proof
    assume "map_of src a = None"
    then show ?thesis
      using doc_apply_patch_merge[OF m, of s] True by (simp add: jprop_def merge_fields_absent)
  next
    assume "\<exists>sub. map_of src a = Some (JObj sub) \<and> map_of sub f = None"
    then obtain sub where s: "map_of src a = Some (JObj sub)" "map_of sub f = None" by blast
    show ?thesis
      using doc_apply_patch_merge[OF m, of s] True merge_fields_sub[OF s(1), of "doc s k"]
      by (simp add: jprop_def merge_fields_absent[OF s(2)])
  qed
qed

lemma apply_patch_clears_sub:
  assumes "clears_sub p k a f"
  shows "jprop (jprop (doc (apply_patch s p) k) a) f = JUndef"
proof -
  from assms obtain src sub where m: "key p = k" "onyxMethod p = MERGE" "val p = JObj src"
    and s: "map_of src a = Some (JObj sub)" "map_of sub f = Some JNull"
    by (auto simp: clears_sub_def)
  show ?thesis
    using doc_apply_patch_merge[OF m(2,3), of s] m(1) merge_fields_sub[OF s(1), of "doc s k"]
    by (simp add: jprop_def merge_fields_null[OF s(2)])
qed

lemma apply_patches_cleared_sub:
  assumes "clears_sub p k a f" and "\<forall>q \<in> set post. leaves_sub q k a f \<or> clears_sub q k a f"
  shows "jprop (jprop (doc (apply_patches s (pre @ p # post)) k) a) f = JUndef"
proof -
  have keep: "jprop (jprop (doc (apply_patches t post) k) a) f = JUndef"
    if "jprop (jprop (doc t k) a) f = JUndef"
      and "\<forall>q \<in> set post. leaves_sub q k a f \<or> clears_sub q k a f"
    for t post
    using that
  proof (induction post arbitrary: t)
    case Nil
    then show ?case by (simp add: apply_patches_def)
  next
    case (Cons q qs)
    have "jprop (jprop (doc (apply_patch t q) k) a) f = JUndef"
      using Cons.prems by (auto simp: apply_patch_leaves_sub apply_patch_clears_sub)
    then show ?case using Cons by (simp add: apply_patches_Cons)
  qed
  show ?thesis
    by (simp add: apply_patches_append apply_patches_Cons
          keep[OF apply_patch_clears_sub[OF assms(1)] assms(2)])
qed

lemma succ_chatReport_clears:
  "clears_field (succ_chatReport chatReport)
     (Coll REPORT (to_string (jprop chatReport ''reportID''))) ''pendingFields''"
  by (auto simp: clears_field_def succ_chatReport_def obj_simps)

lemma succ_iouReport_clears:
  "clears_field (succ_iouReport iouReport)
     (Coll REPORT (to_string (jprop iouReport ''reportID''))) ''pendingFields''"
  by (auto simp: clears_field_def succ_iouReport_def obj_simps)

lemma succ_iouReport_leaves_or_clears:
  "leaves_field (succ_iouReport iouReport) k ''pendingFields''
   \<or> clears_field (succ_iouReport iouReport) k ''pendingFields''"
  by (auto simp: leaves_field_def clears_field_def succ_iouReport_def obj_simps)

lemma succ_transaction_clears:
  "f \<in> {''pendingAction'', ''pendingFields''} \<Longrightarrow>
   clears_field (succ_transaction transaction)
     (Coll TRANSACTION (to_string (jprop transaction ''transactionID''))) f"
  by (auto simp: clears_field_def succ_transaction_def obj_simps)

lemma succ_actions_leave_report:
  "leaves_field (succ_transaction transaction) (Coll REPORT x) f"
  "leaves_field (succ_chatActions chatReport chatCreatedAction reportPreviewAction isNewChatReport)
     (Coll REPORT x) f"
  "leaves_field (succ_iouActions iouReport iouCreatedAction iouAction isNewIOUReport) (Coll REPORT x) f"
  by (simp_all add: leaves_field_def succ_transaction_def succ_chatActions_def succ_iouActions_def)

lemma succ_actions_leave_transaction:
  "leaves_field (succ_chatActions chatReport chatCreatedAction reportPreviewAction isNewChatReport)
     (Coll TRANSACTION x) f"
  "leaves_field (succ_iouActions iouReport iouCreatedAction iouAction isNewIOUReport)
     (Coll TRANSACTION x) f"
  by (simp_all add: leaves_field_def succ_chatActions_def succ_iouActions_def)

lemma succ_chatActions_clears_preview:
  "clears_sub (succ_chatActions chatReport chatCreatedAction reportPreviewAction isNewChatReport)
     (Coll REPORT_ACTIONS (to_string (jprop chatReport ''reportID'')))
     (to_string (jprop reportPreviewAction ''reportActionID'')) ''pendingAction''"
  by (auto simp: clears_sub_def succ_chatActions_def obj_simps)

lemma succ_chatActions_clears_created:
  "clears_sub (succ_chatActions chatReport chatCreatedAction reportPreviewAction True)
     (Coll REPORT_ACTIONS (to_string (jprop chatReport ''reportID'')))
     (to_string (jprop chatCreatedAction ''reportActionID'')) ''pendingAction''"
  by (auto simp: clears_sub_def succ_chatActions_def obj_simps)

lemma succ_iouActions_clears_action:
  "clears_sub (succ_iouActions iouReport iouCreatedAction iouAction isNewIOUReport)
     (Coll REPORT_ACTIONS (to_string (jprop iouReport ''reportID'')))
     (to_string (jprop iouAction ''reportActionID'')) ''pendingAction''"
  by (auto simp: clears_sub_def succ_iouActions_def obj_simps)

lemma succ_iouActions_clears_created:
  "clears_sub (succ_iouActions iouReport iouCreatedAction iouAction True)
     (Coll REPORT_ACTIONS (to_string (jprop iouReport ''reportID'')))
     (to_string (jprop iouCreatedAction ''reportActionID'')) ''pendingAction''"
  by (auto simp: clears_sub_def succ_iouActions_def obj_simps)

lemma succ_iouActions_leaves_or_clears:
  "leaves_sub (succ_iouActions iouReport iouCreatedAction iouAction isNewIOUReport) k a ''pendingAction''
   \<or> clears_sub (succ_iouActions iouReport iouCreatedAction iouAction isNewIOUReport) k a ''pendingAction''"
  by (auto simp: leaves_sub_def clears_sub_def succ_iouActions_def obj_simps)

section \<open>Claims about the outstanding-child-request flag\<close>

text \<open>
  C4, as the code has it. \<open>getOutstandingChildRequest\<close> returns
  \<open>{hasOutstandingChildRequest: false}\<close> exactly when \<open>needsToBeManuallySubmitted\<close> is
  falsy, \<open>{hasOutstandingChildRequest: true}\<close> exactly when it is truthy and the user is
  an admin of the policy, and an object without the key exactly when it is truthy and
  the user is not an admin of the policy.
\<close>

theorem getOutstandingChildRequest_result:
  "(jprop (getOutstandingChildRequest adm policy needs) ''hasOutstandingChildRequest'' = JBool False
      \<longleftrightarrow> \<not> truthy needs)
   \<and> (jprop (getOutstandingChildRequest adm policy needs) ''hasOutstandingChildRequest'' = JBool True
      \<longleftrightarrow> truthy needs \<and> adm policy)
   \<and> (map_of (own_props (getOutstandingChildRequest adm policy needs)) ''hasOutstandingChildRequest'' = None
      \<longleftrightarrow> truthy needs \<and> \<not> adm policy)"
  by (simp add: getOutstandingChildRequest_cases jprop_def)

theorem getOutstandingChildRequest_result_witness:
  "jprop (getOutstandingChildRequest role_is_admin (JObj [(''role'', JStr ''admin'')]) (JBool True))
      ''hasOutstandingChildRequest'' = JBool True
   \<and> truthy (JBool True) \<and> role_is_admin (JObj [(''role'', JStr ''admin'')])"
  using getOutstandingChildRequest_result
          [of role_is_admin "JObj [(''role'', JStr ''admin'')]" "JBool True"]
  by (simp add: role_is_admin_def jprop_def)

text \<open>
  C4 as stated fails: for an admin of a policy that needs manual submission the result
  is \<open>{hasOutstandingChildRequest: true}\<close>, for a member who is not an admin the key
  is left out, and when no manual submission is needed the key is present with the
  value \<open>false\<close>.
\<close>

theorem getOutstandingChildRequest_counterexample:
  "role_is_admin (JObj [(''role'', JStr ''admin'')])
   \<and> getOutstandingChildRequest role_is_admin (JObj [(''role'', JStr ''admin'')]) (JBool True)
       = JObj [(''hasOutstandingChildRequest'', JBool True)]
   \<and> \<not> role_is_admin (JObj [(''role'', JStr ''user'')])
   \<and> getOutstandingChildRequest role_is_admin (JObj [(''role'', JStr ''user'')]) (JBool True) = JObj []
   \<and> getOutstandingChildRequest role_is_admin (JObj [(''role'', JStr ''user'')]) (JBool False)
       = JObj [(''hasOutstandingChildRequest'', JBool False)]"
  by (simp add: getOutstandingChildRequest_cases role_is_admin_def jprop_def)

section \<open>Claims about the patches of a money request\<close>

text \<open>
  C5. In \<open>buildOnyxDataForMoneyRequest\<close> the object merged into the chat report's
  optimistic value is \<open>getOutstandingChildRequest\<close> applied to
  \<open>needsToBeManuallySubmitted\<close> in the place of its parameter \<open>policy\<close> and to
  \<open>policy\<close> in the place of its parameter \<open>needsToBeManuallySubmitted\<close>: the flag
  written is \<open>false\<close> when the policy object is falsy, \<open>true\<close> when the admin test
  holds of the boolean, and the chat report's own flag otherwise.
\<close>

theorem buildOnyxDataForMoneyRequest_swaps_arguments:
  assumes "buildOnyxDataForMoneyRequest d chatReport iouReport transaction chatCreatedAction
      iouCreatedAction iouAction pd reportPreviewAction cats tags
      isNewChatReport isNewIOUReport policy policyTags policyCategories needsArg = Some (opt, succ, fail)"
  shows "hd opt = opt_chatReport d chatReport iouReport isNewChatReport
            (getOutstandingChildRequest (isPolicyAdmin d)
               (if needsArg = JUndef then JBool True else needsArg) policy)
     \<and> jprop (val (hd opt)) ''hasOutstandingChildRequest'' =
         (if \<not> truthy policy then JBool False
          else if isPolicyAdmin d (if needsArg = JUndef then JBool True else needsArg) then JBool True
          else jprop chatReport ''hasOutstandingChildRequest'')"
proof -
  from buildOnyxDataForMoneyRequest_SomeD[OF assms] obtain message0 where
    opt: "opt = mr_optimisticData d chatReport iouReport transaction chatCreatedAction
            iouCreatedAction iouAction pd reportPreviewAction cats tags isNewChatReport isNewIOUReport
            (getOutstandingChildRequest (isPolicyAdmin d)
               (if needsArg = JUndef then JBool True else needsArg) policy)
            message0
            @ (case mr_violations d transaction policy policyTags policyCategories of
                 None \<Rightarrow> [] | Some v \<Rightarrow> [v])" by blast
  have hd: "hd opt = opt_chatReport d chatReport iouReport isNewChatReport
            (getOutstandingChildRequest (isPolicyAdmin d)
               (if needsArg = JUndef then JBool True else needsArg) policy)"
    by (simp add: opt mr_optimisticData_def)
  have "jprop (val (opt_chatReport d chatReport iouReport isNewChatReport
            (getOutstandingChildRequest adm n policy))) ''hasOutstandingChildRequest'' =
         (if \<not> truthy policy then JBool False
          else if adm n then JBool True
          else jprop chatReport ''hasOutstandingChildRequest'')" for adm n
    by (simp add: opt_chatReport_def getOutstandingChildRequest_cases jprop_def obj_simps
          split: option.splits)
  with hd show ?thesis by simp
qed

theorem buildOnyxDataForMoneyRequest_swaps_arguments_witness:
  "sample_request sample_chatReport \<noteq> None
   \<and> jprop (val (hd (fst (the (sample_request sample_chatReport))))) ''hasOutstandingChildRequest''
       = JBool False"
proof -
  obtain opt succ fail where r: "sample_request sample_chatReport = Some (opt, succ, fail)"
    by (cases "sample_request sample_chatReport") (simp add: sample_request_def buildOnyxDataForMoneyRequest_def sample_chatReport_def sample_iouReport_def sample_iouAction_def sample_transaction_def sample_previewAction_def
        jmember_def jprop_def index0_def, auto)
  from buildOnyxDataForMoneyRequest_swaps_arguments[OF r[unfolded sample_request_def], THEN conjunct2]
  show ?thesis by (simp add: r)
qed

text \<open>
  C1 as stated fails. On the sample request the stored IOU report had a total of 100 and
  the last message text \<open>old\<close>; after the optimistic patches and then the failure
  patches the total is 1100 and the text is \<open>new\<close>.
\<close>

theorem failure_keeps_optimistic_total_counterexample:
  "field_of (on_failure sample_store (sample_request sample_chatReport)) (Coll REPORT ''20'') ''total''
      = Some (JNum 1100)
   \<and> field_of (Some sample_store) (Coll REPORT ''20'') ''total'' = Some (JNum 100)
   \<and> field_of (on_failure sample_store (sample_request sample_chatReport)) (Coll REPORT ''20'')
        ''lastMessageText'' = Some (JStr ''new'')
   \<and> field_of (Some sample_store) (Coll REPORT ''20'') ''lastMessageText'' = Some (JStr ''old'')"
  by code_simp

text \<open>
  C1, as the code has it. For a request on a chat report that is in the store, the
  failure patches applied after the optimistic patches put \<open>iouReportID\<close>,
  \<open>lastReadTime\<close> and \<open>hasOutstandingChildRequest\<close> of the chat report back to the
  stored values (where the stored value is a string, number or boolean) and clear
  \<open>pendingFields\<close> on the chat report and on the money report; they do not write the
  money report's \<open>total\<close>, \<open>lastMessageText\<close> or \<open>lastMessageHtml\<close>, which stay as
  the optimistic patches left them.
\<close>

theorem failure_restores_chat_report:
  assumes "buildOnyxDataForMoneyRequest d chatReport iouReport transaction chatCreatedAction
      iouCreatedAction iouAction pd reportPreviewAction cats tags
      isNewChatReport isNewIOUReport policy policyTags policyCategories needsArg = Some (opt, succ, fail)"
    and "doc s (Coll REPORT (to_string (jprop chatReport ''reportID''))) = chatReport"
  shows "(\<forall>f \<in> {''iouReportID'', ''lastReadTime'', ''hasOutstandingChildRequest''}.
            is_leaf (jprop chatReport f) \<longrightarrow>
            jprop (doc (apply_patches (apply_patches s opt) fail)
                     (Coll REPORT (to_string (jprop chatReport ''reportID'')))) f
              = jprop (doc s (Coll REPORT (to_string (jprop chatReport ''reportID'')))) f)
       \<and> jprop (doc (apply_patches (apply_patches s opt) fail)
                  (Coll REPORT (to_string (jprop chatReport ''reportID'')))) ''pendingFields'' = JUndef
       \<and> jprop (doc (apply_patches (apply_patches s opt) fail)
                  (Coll REPORT (to_string (jprop iouReport ''reportID'')))) ''pendingFields'' = JUndef
       \<and> (\<forall>f \<in> {''total'', ''lastMessageText'', ''lastMessageHtml''}.
            jprop (doc (apply_patches (apply_patches s opt) fail)
                     (Coll REPORT (to_string (jprop iouReport ''reportID'')))) f
              = jprop (doc (apply_patches s opt)
                     (Coll REPORT (to_string (jprop iouReport ''reportID'')))) f)"
proof -
  let ?ck = "Coll REPORT (to_string (jprop chatReport ''reportID''))"
  let ?ik = "Coll REPORT (to_string (jprop iouReport ''reportID''))"
  let ?vf = "case mr_violations d transaction policy policyTags policyCategories of
                 None \<Rightarrow> []
               | Some v \<Rightarrow> [\<lparr>onyxMethod = SET,
                          key = Coll TRANSACTION_VIOLATIONS (to_string (jprop transaction ''transactionID'')),
                          val = JArr []\<rparr>]"
  from buildOnyxDataForMoneyRequest_SomeD[OF assms(1)] obtain rerr where
    fail: "fail = mr_failureData d chatReport iouReport transaction chatCreatedAction
            iouCreatedAction iouAction reportPreviewAction isNewChatReport isNewIOUReport rerr @ ?vf"
    by blast
  let ?rest = "[fail_transaction d transaction, clear_draft d,
      fail_chatActions d chatReport chatCreatedAction reportPreviewAction isNewChatReport rerr,
      fail_iouActions d iouReport iouCreatedAction iouAction isNewIOUReport rerr] @ ?vf"
  have fail1: "fail = [] @ fail_chatReport d chatReport isNewChatReport
                 # (fail_iouReport d iouReport isNewIOUReport # ?rest)"
    and fail2: "fail = [fail_chatReport d chatReport isNewChatReport]
                 @ fail_iouReport d iouReport isNewIOUReport # ?rest"
    by (simp_all add: fail mr_failureData_def)
  have rest: "\<forall>q \<in> set ?rest. leaves_field q (Coll REPORT x) f" for x f
    using violations_fail_leaves[where v = "mr_violations d transaction policy policyTags policyCategories"]
    by (simp add: fail_rest_leaves)
  have a: "jprop (doc (apply_patches (apply_patches s opt) fail) ?ck) f = jprop (doc s ?ck) f"
    if "f \<in> {''iouReportID'', ''lastReadTime'', ''hasOutstandingChildRequest''}"
      and "is_leaf (jprop chatReport f)" for f
  proof -
    have "\<forall>q \<in> set (fail_iouReport d iouReport isNewIOUReport # ?rest). leaves_field q ?ck f"
      using rest[of _ f] fail_iouReport_leaves[of f] that(1) by auto
    from apply_patches_written[OF fail_chatReport_writes[OF that(1)] that(2) this]
    show ?thesis unfolding fail1 assms(2) .
  qed
  have b: "jprop (doc (apply_patches (apply_patches s opt) fail) ?ck) ''pendingFields'' = JUndef"
  proof -
    have "\<forall>q \<in> set (fail_iouReport d iouReport isNewIOUReport # ?rest).
            leaves_field q ?ck ''pendingFields'' \<or> clears_field q ?ck ''pendingFields''"
      using rest[of _ "''pendingFields''"] fail_iouReport_leaves_or_clears by auto
    from apply_patches_cleared[OF fail_chatReport_clears this]
    show ?thesis unfolding fail1 .
  qed
  have c: "jprop (doc (apply_patches (apply_patches s opt) fail) ?ik) ''pendingFields'' = JUndef"
  proof -
    have "\<forall>q \<in> set ?rest. leaves_field q ?ik ''pendingFields'' \<or> clears_field q ?ik ''pendingFields''"
      using rest[of _ "''pendingFields''"] by auto
    from apply_patches_cleared[OF fail_iouReport_clears this]
    show ?thesis unfolding fail2 .
  qed
  have e: "jprop (doc (apply_patches (apply_patches s opt) fail) ?ik) f
             = jprop (doc (apply_patches s opt) ?ik) f"
    if "f \<in> {''total'', ''lastMessageText'', ''lastMessageHtml''}" for f
  proof -
    have "\<forall>q \<in> set fail. leaves_field q ?ik f"
      unfolding fail1 using rest[of _ f] fail_iouReport_leaves[of f] fail_chatReport_leaves[OF that] that
      by auto
    from apply_patches_leaves[OF this] show ?thesis .
  qed
  from a b c e show ?thesis by blast
qed

theorem failure_restores_chat_report_witness:
  "sample_request sample_chatReport \<noteq> None
   \<and> doc sample_store (Coll REPORT ''10'') = sample_chatReport
   \<and> is_leaf (jprop sample_chatReport ''iouReportID'')
   \<and> field_of (on_failure sample_store (sample_request sample_chatReport)) (Coll REPORT ''10'')
        ''iouReportID'' = Some (JStr ''20'')
   \<and> field_of (on_failure sample_store (sample_request sample_chatReport)) (Coll REPORT ''20'')
        ''total''
      = field_of (on_optimistic sample_store (sample_request sample_chatReport)) (Coll REPORT ''20'')
        ''total''"
proof -
  obtain opt succ fail where r: "sample_request sample_chatReport = Some (opt, succ, fail)"
    by (cases "sample_request sample_chatReport") (simp add: sample_request_def buildOnyxDataForMoneyRequest_def sample_chatReport_def sample_iouReport_def sample_iouAction_def sample_transaction_def sample_previewAction_def
        jmember_def jprop_def index0_def, auto)
  have id: "to_string (jprop sample_chatReport ''reportID'') = ''10''"
      "to_string (jprop sample_iouReport ''reportID'') = ''20''"
    by (simp_all add: sample_chatReport_def sample_iouReport_def jprop_def)
  have st: "doc sample_store (Coll REPORT ''10'') = sample_chatReport"
    by (simp add: sample_store_def doc_def)
  have v: "jprop sample_chatReport ''iouReportID'' = JStr ''20''"
    by (simp add: sample_chatReport_def jprop_def)
  have lf: "is_leaf (jprop sample_chatReport ''iouReportID'')"
    by (simp add: v is_leaf_def)
  have st': "doc sample_store (Coll REPORT (to_string (jprop sample_chatReport ''reportID'')))
               = sample_chatReport"
    by (simp add: id st)
  from failure_restores_chat_report[OF r[unfolded sample_request_def] st'] lf
  show ?thesis
    by (simp add: r id st v field_of_def on_failure_def on_optimistic_def)
qed

text \<open>
  C3 as stated fails. A request on an existing chat report (\<open>isNewChatReport\<close> false)
  that carries \<open>pendingFields: {createChat: 'add'}\<close> merges the chat report with that
  marker, and no success patch goes to the chat report: the marker is still there after
  the success patches.
\<close>

theorem success_keeps_chat_marker_counterexample:
  "field_of (on_success sample_pending_store (sample_request sample_pending_chatReport))
       (Coll REPORT ''10'') ''pendingFields'' = Some (JObj [(''createChat'', JStr ''add'')])"
  by code_simp

text \<open>
  C3, as the code has it. After the optimistic patches and then the success patches,
  \<open>pendingFields\<close> of the money report, \<open>pendingAction\<close> and \<open>pendingFields\<close> of the
  transaction and \<open>pendingAction\<close> of the preview action and of the IOU action are
  cleared; \<open>pendingFields\<close> of the chat report and \<open>pendingAction\<close> of its created
  action are cleared when the chat report is new, \<open>pendingAction\<close> of the IOU report's
  created action when the IOU report is new. The success patches do not write
  \<open>pendingFields\<close> of a chat report that is not new (and is another report than the
  money report).
\<close>

theorem success_clears_markers:
  assumes "buildOnyxDataForMoneyRequest d chatReport iouReport transaction chatCreatedAction
      iouCreatedAction iouAction pd reportPreviewAction cats tags
      isNewChatReport isNewIOUReport policy policyTags policyCategories needsArg = Some (opt, succ, fail)"
  shows "jprop (doc (apply_patches (apply_patches s opt) succ)
                  (Coll REPORT (to_string (jprop iouReport ''reportID'')))) ''pendingFields'' = JUndef
       \<and> jprop (doc (apply_patches (apply_patches s opt) succ)
                  (Coll TRANSACTION (to_string (jprop transaction ''transactionID'')))) ''pendingAction''
           = JUndef
       \<and> jprop (doc (apply_patches (apply_patches s opt) succ)
                  (Coll TRANSACTION (to_string (jprop transaction ''transactionID'')))) ''pendingFields''
           = JUndef
       \<and> jprop (jprop (doc (apply_patches (apply_patches s opt) succ)
                         (Coll REPORT_ACTIONS (to_string (jprop chatReport ''reportID''))))
                   (to_string (jprop reportPreviewAction ''reportActionID''))) ''pendingAction'' = JUndef
       \<and> jprop (jprop (doc (apply_patches (apply_patches s opt) succ)
                         (Coll REPORT_ACTIONS (to_string (jprop iouReport ''reportID''))))
                   (to_string (jprop iouAction ''reportActionID''))) ''pendingAction'' = JUndef
       \<and> (isNewChatReport \<longrightarrow>
            jprop (doc (apply_patches (apply_patches s opt) succ)
                     (Coll REPORT (to_string (jprop chatReport ''reportID'')))) ''pendingFields'' = JUndef
            \<and> jprop (jprop (doc (apply_patches (apply_patches s opt) succ)
                         (Coll REPORT_ACTIONS (to_string (jprop chatReport ''reportID''))))
                   (to_string (jprop chatCreatedAction ''reportActionID''))) ''pendingAction'' = JUndef)
       \<and> (isNewIOUReport \<longrightarrow>
            jprop (jprop (doc (apply_patches (apply_patches s opt) succ)
                         (Coll REPORT_ACTIONS (to_string (jprop iouReport ''reportID''))))
                   (to_string (jprop iouCreatedAction ''reportActionID''))) ''pendingAction'' = JUndef)
       \<and> (\<not> isNewChatReport
            \<and> to_string (jprop chatReport ''reportID'') \<noteq> to_string (jprop iouReport ''reportID'') \<longrightarrow>
            jprop (doc (apply_patches (apply_patches s opt) succ)
                     (Coll REPORT (to_string (jprop chatReport ''reportID'')))) ''pendingFields''
              = jprop (doc (apply_patches s opt)
                     (Coll REPORT (to_string (jprop chatReport ''reportID'')))) ''pendingFields'')"
proof -
  let ?ck = "Coll REPORT (to_string (jprop chatReport ''reportID''))"
  let ?ik = "Coll REPORT (to_string (jprop iouReport ''reportID''))"
  let ?tk = "Coll TRANSACTION (to_string (jprop transaction ''transactionID''))"
  let ?cak = "Coll REPORT_ACTIONS (to_string (jprop chatReport ''reportID''))"
  let ?iak = "Coll REPORT_ACTIONS (to_string (jprop iouReport ''reportID''))"
  let ?s1 = "apply_patches s opt"
  let ?pre = "if isNewChatReport then [succ_chatReport chatReport] else []"
  let ?sc = "succ_chatReport chatReport"
  let ?si = "succ_iouReport iouReport"
  let ?st = "succ_transaction transaction"
  let ?sca = "succ_chatActions chatReport chatCreatedAction reportPreviewAction isNewChatReport"
  let ?sia = "succ_iouActions iouReport iouCreatedAction iouAction isNewIOUReport"
  from buildOnyxDataForMoneyRequest_SomeD[OF assms] have
    succ: "succ = mr_successData chatReport iouReport transaction chatCreatedAction
            iouCreatedAction iouAction reportPreviewAction isNewChatReport isNewIOUReport"
    by blast
  have s_i: "succ = ?pre @ ?si # [?st, ?sca, ?sia]"
    and s_t: "succ = (?pre @ [?si]) @ ?st # [?sca, ?sia]"
    and s_ca: "succ = (?pre @ [?si, ?st]) @ ?sca # [?sia]"
    and s_ia: "succ = (?pre @ [?si, ?st, ?sca]) @ ?sia # []"
    by (simp_all add: succ mr_successData_def)
  have t1: "jprop (doc (apply_patches ?s1 succ) ?ik) ''pendingFields'' = JUndef"
    unfolding s_i
    by (rule apply_patches_cleared[OF succ_iouReport_clears]) (simp add: succ_actions_leave_report)
  have t2: "jprop (doc (apply_patches ?s1 succ) ?tk) f = JUndef"
    if "f \<in> {''pendingAction'', ''pendingFields''}" for f
    unfolding s_t
    by (rule apply_patches_cleared[OF succ_transaction_clears[OF that]])
       (simp add: succ_actions_leave_transaction)
  have t3: "jprop (jprop (doc (apply_patches ?s1 succ) ?cak)
               (to_string (jprop reportPreviewAction ''reportActionID''))) ''pendingAction'' = JUndef"
    unfolding s_ca
    by (rule apply_patches_cleared_sub[OF succ_chatActions_clears_preview])
       (simp add: succ_iouActions_leaves_or_clears)
  have t4: "jprop (jprop (doc (apply_patches ?s1 succ) ?iak)
               (to_string (jprop iouAction ''reportActionID''))) ''pendingAction'' = JUndef"
    unfolding s_ia
    by (rule apply_patches_cleared_sub[OF succ_iouActions_clears_action]) simp
  have t5: "jprop (doc (apply_patches ?s1 succ) ?ck) ''pendingFields'' = JUndef"
    and t6: "jprop (jprop (doc (apply_patches ?s1 succ) ?cak)
               (to_string (jprop chatCreatedAction ''reportActionID''))) ''pendingAction'' = JUndef"
    if new: "isNewChatReport"
  proof -
    have "succ = [] @ ?sc # [?si, ?st, ?sca, ?sia]"
      by (simp add: succ mr_successData_def new)
    then show "jprop (doc (apply_patches ?s1 succ) ?ck) ''pendingFields'' = JUndef"
      using apply_patches_cleared[OF succ_chatReport_clears, of "[?si, ?st, ?sca, ?sia]" chatReport ?s1 "[]"]
        succ_iouReport_leaves_or_clears[of iouReport ?ck]
      by (simp add: succ_actions_leave_report)
    show "jprop (jprop (doc (apply_patches ?s1 succ) ?cak)
               (to_string (jprop chatCreatedAction ''reportActionID''))) ''pendingAction'' = JUndef"
      unfolding s_ca using new
      by (intro apply_patches_cleared_sub)
         (simp_all add: succ_chatActions_clears_created succ_iouActions_leaves_or_clears)
  qed
  have t7: "jprop (jprop (doc (apply_patches ?s1 succ) ?iak)
               (to_string (jprop iouCreatedAction ''reportActionID''))) ''pendingAction'' = JUndef"
    if new: "isNewIOUReport"
    unfolding s_ia using new
    by (intro apply_patches_cleared_sub) (simp_all add: succ_iouActions_clears_created)
  have t8: "jprop (doc (apply_patches ?s1 succ) ?ck) ''pendingFields''
              = jprop (doc ?s1 ?ck) ''pendingFields''"
    if "\<not> isNewChatReport"
      and "to_string (jprop chatReport ''reportID'') \<noteq> to_string (jprop iouReport ''reportID'')"
  proof -
    have "\<forall>q \<in> set succ. leaves_field q ?ck ''pendingFields''"
      using that
      by (simp add: succ mr_successData_def succ_actions_leave_report)
         (simp add: leaves_field_def succ_iouReport_def)
    from apply_patches_leaves[OF this] show ?thesis .
  qed
  from t1 t2 t3 t4 t5 t6 t7 t8 show ?thesis by simp
qed

theorem success_clears_markers_witness:
  "sample_request sample_chatReport \<noteq> None
   \<and> field_of (on_success sample_store (sample_request sample_chatReport)) (Coll REPORT ''20'')
        ''pendingFields'' = Some JUndef
   \<and> field_of (on_optimistic sample_store (sample_request sample_chatReport)) (Coll REPORT ''20'')
        ''pendingFields'' = Some (JObj [(''preview'', JStr ''update'')])"
proof -
  obtain opt succ fail where r: "sample_request sample_chatReport = Some (opt, succ, fail)"
    by (cases "sample_request sample_chatReport") (simp add: sample_request_def buildOnyxDataForMoneyRequest_def sample_chatReport_def sample_iouReport_def sample_iouAction_def sample_transaction_def sample_previewAction_def
        jmember_def jprop_def index0_def, auto)
  have id: "to_string (jprop sample_iouReport ''reportID'') = ''20''"
    by (simp add: sample_iouReport_def jprop_def)
  have o: "field_of (on_optimistic sample_store (sample_request sample_chatReport)) (Coll REPORT ''20'')
        ''pendingFields'' = Some (JObj [(''preview'', JStr ''update'')])"
    by code_simp
  from success_clears_markers[OF r[unfolded sample_request_def], of sample_store, THEN conjunct1] o
  show ?thesis
    by (simp add: r id field_of_def on_success_def)
qed

section \<open>Claims about approving and submitting\<close>

text \<open>
  C8 at a submitted expense report (state and status 1 in the sample). The optimistic
  patches of \<open>approveMoneyRequest\<close> set \<open>stateNum\<close> and \<open>statusNum\<close> to the approved
  values (2), and after the failure patches they are still 2, not the 1 they were:
  the failure list of \<open>approveMoneyRequest\<close> has no patch for the report. The failure
  list of \<open>submitReport\<close> has one: on an open report (0) the optimistic value 1 goes
  back to 0.
\<close>

theorem approve_failure_keeps_approved_state:
  "field_of (on_optimistic sample_submitted_store
       (approveMoneyRequest sample_deps sample_report_deps sample_submitted_store sample_submitted_report))
     (Coll REPORT ''20'') ''statusNum'' = Some (JNum 2)
   \<and> field_of (on_failure sample_submitted_store
       (approveMoneyRequest sample_deps sample_report_deps sample_submitted_store sample_submitted_report))
     (Coll REPORT ''20'') ''statusNum'' = Some (JNum 2)
   \<and> field_of (on_failure sample_submitted_store
       (approveMoneyRequest sample_deps sample_report_deps sample_submitted_store sample_submitted_report))
     (Coll REPORT ''20'') ''stateNum'' = Some (JNum 2)
   \<and> field_of (Some sample_submitted_store) (Coll REPORT ''20'') ''statusNum'' = Some (JNum 1)
   \<and> field_of (Some sample_submitted_store) (Coll REPORT ''20'') ''stateNum'' = Some (JNum 1)
   \<and> field_of (on_optimistic sample_open_store
       (submitReport sample_deps sample_report_deps sample_open_store sample_open_report))
     (Coll REPORT ''20'') ''statusNum'' = Some (JNum 1)
   \<and> field_of (on_failure sample_open_store
       (submitReport sample_deps sample_report_deps sample_open_store sample_open_report))
     (Coll REPORT ''20'') ''statusNum'' = Some (JNum 0)
   \<and> field_of (on_failure sample_open_store
       (submitReport sample_deps sample_report_deps sample_open_store sample_open_report))
     (Coll REPORT ''20'') ''stateNum'' = Some (JNum 0)"
  by code_simp

section \<open>Splitting a bill as the spec words it\<close>

text \<open>
  The Split Allocation Algorithm as the spec words it, at a total of 5 split between
  the current user and two others (three participants): the share is 1 and the
  remainder 2, the current user's amount is 2 and the two others get 1 each. The
  amounts add up to 4, so the algorithm as worded and the invariant that the spec
  states beside it do not agree; \<open>IOUUtils.calculateAmount\<close> itself is not part of these
  sources, and \<open>createSplitsAndOnyxData\<close> only passes its results on.
\<close>

lemma calculateAmount_five_between_three:
  "split_amounts [''a@x.com'', ''b@x.com''] ''me@x.com'' 5 (JStr ''USD'') = [2, 1, 1]
   \<and> sum_list (split_amounts [''a@x.com'', ''b@x.com''] ''me@x.com'' 5 (JStr ''USD'')) = 4
   \<and> calculateAmount 2 5 (JStr ''USD'') True = 2
   \<and> calculateAmount 2 5 (JStr ''USD'') False = 1"
  by (simp add: split_amounts_def calculateAmount_def Let_def)

section \<open>Claims about editing a money request\<close>


















section \<open>Claims about deleting a money request\<close>

lemma deleteMoneyRequest_SomeD:
  assumes "deleteMoneyRequest d u s transactionID reportAction isSingleTransactionView
             = Some (opt, succ, fail)"
  shows "\<exists>updatedReportAction updatedIOUReport updatedReportPreviewAction.
     opt = delete_optimisticData u transactionID reportAction (delete_iouReport s reportAction)
             (delete_chatReport s reportAction)
             (getReportPreviewAction u (jprop (delete_iouReport s reportAction) ''chatReportID'')
                (jprop (delete_iouReport s reportAction) ''reportID''))
             updatedReportAction updatedIOUReport updatedReportPreviewAction
             (shouldDeleteTransactionThread reportAction) (shouldDeleteIOUReport d u s reportAction)
     \<and> succ = delete_successData reportAction (delete_iouReport s reportAction)
             (delete_chatReport s reportAction)
             (getReportPreviewAction u (jprop (delete_iouReport s reportAction) ''chatReportID'')
                (jprop (delete_iouReport s reportAction) ''reportID''))
             (shouldDeleteIOUReport d u s reportAction)"
  using assms unfolding deleteMoneyRequest_def Let_def
  by (auto simp: bind_eq_Some_conv)

lemma apply_patch_set_null:
  "apply_patch s \<lparr>onyxMethod = SET, key = k, val = JNull\<rparr> = s(k := None)"
  by (simp add: apply_patch_def)

text \<open>
  C7. When \<open>shouldDeleteIOUReport\<close> holds, the optimistic patches of
  \<open>deleteMoneyRequest\<close> end with a merge into the chat report that clears its
  \<open>iouReportID\<close>, and the success patches end by setting the money report's document
  to \<open>null\<close>: after the optimistic patches the chat report has no \<open>iouReportID\<close>,
  and after the success patches the money report is gone from the store and the chat
  report still has no \<open>iouReportID\<close>.
\<close>

theorem delete_last_request_removes_report:
  assumes "deleteMoneyRequest d u s transactionID reportAction isSingleTransactionView
             = Some (opt, succ, fail)"
    and "shouldDeleteIOUReport d u s reportAction"
  shows "last succ = \<lparr>onyxMethod = SET,
                       key = Coll REPORT (to_string (jprop (delete_iouReport s reportAction) ''reportID'')),
                       val = JNull\<rparr>
       \<and> clears_field (last opt)
            (Coll REPORT (to_string (jprop (delete_chatReport s reportAction) ''reportID'')))
            ''iouReportID''
       \<and> apply_patches (apply_patches s opt) succ
            (Coll REPORT (to_string (jprop (delete_iouReport s reportAction) ''reportID''))) = None
       \<and> jprop (doc (apply_patches s opt)
                  (Coll REPORT (to_string (jprop (delete_chatReport s reportAction) ''reportID''))))
            ''iouReportID'' = JUndef
       \<and> jprop (doc (apply_patches (apply_patches s opt) succ)
                  (Coll REPORT (to_string (jprop (delete_chatReport s reportAction) ''reportID''))))
            ''iouReportID'' = JUndef"
proof -
  let ?iou = "delete_iouReport s reportAction"
  let ?chat = "delete_chatReport s reportAction"
  let ?ik = "Coll REPORT (to_string (jprop ?iou ''reportID''))"
  let ?ck = "Coll REPORT (to_string (jprop ?chat ''reportID''))"
  let ?rpa = "getReportPreviewAction u (jprop ?iou ''chatReportID'') (jprop ?iou ''reportID'')"
  let ?setnull = "\<lparr>onyxMethod = SET, key = ?ik, val = JNull\<rparr>"
  from deleteMoneyRequest_SomeD[OF assms(1)] assms(2)
  obtain ura uiou urpa where
    opt: "opt = delete_optimisticData u transactionID reportAction ?iou ?chat ?rpa ura uiou urpa
                  (shouldDeleteTransactionThread reportAction) True"
    and succ: "succ = delete_successData reportAction ?iou ?chat ?rpa True"
    by auto
  define m1 where "m1 = \<lparr>onyxMethod = MERGE, key = Coll REPORT_ACTIONS (to_string (jprop ?iou ''reportID'')),
       val = object [Prop (to_string (jprop reportAction ''reportActionID'')) JNull]\<rparr>"
  define m2 where "m2 = \<lparr>onyxMethod = MERGE, key = Coll REPORT_ACTIONS (to_string (jprop ?chat ''reportID'')),
       val = object [Prop (to_string (jprop ?rpa ''reportActionID'')) JNull]\<rparr>"
  have succ': "succ = [m1, m2] @ [?setnull]"
    by (simp add: succ delete_successData_def m1_def m2_def)
  define chatPatch where "chatPatch =
     \<lparr>onyxMethod = MERGE, key = ?ck,
      val = object
        [Prop ''hasOutstandingChildRequest'' (JBool False),
         Prop ''iouReportID'' JNull,
         Prop ''lastMessageText''
           (jprop (getLastVisibleMessage u (jprop ?iou ''chatReportID'')
                     (object [Prop (to_string (jprop ?rpa ''reportActionID'')) JNull]))
              ''lastMessageText''),
         Prop ''lastVisibleActionCreated''
           (jprop (getLastVisibleAction u (jprop ?iou ''chatReportID'')
                     (object [Prop (to_string (jprop ?rpa ''reportActionID'')) JNull]))
              ''created'')]\<rparr>"
  obtain pre where opt': "opt = pre @ chatPatch # []"
    by (simp add: opt delete_optimisticData_def chatPatch_def)
  have cl: "clears_field chatPatch ?ck ''iouReportID''"
    by (simp add: clears_field_def chatPatch_def obj_simps)
  have a: "last succ = ?setnull" by (simp add: succ')
  have b: "clears_field (last opt) ?ck ''iouReportID''" using cl by (simp add: opt')
  have c: "apply_patches (apply_patches s opt) succ ?ik = None"
    by (simp add: succ' apply_patches_append apply_patches_Cons apply_patch_set_null
          apply_patches_def[of _ "[]"])
  have e: "jprop (doc (apply_patches s opt) ?ck) ''iouReportID'' = JUndef"
    unfolding opt' by (rule apply_patches_cleared[OF cl]) simp
  have lv: "\<forall>p \<in> set [m1, m2]. leaves_field p ?ck ''iouReportID''"
    by (simp add: leaves_field_def m1_def m2_def)
  have f: "jprop (doc (apply_patches (apply_patches s opt) succ) ?ck) ''iouReportID'' = JUndef"
  proof (cases "?ik = ?ck")
    case True
    with c have "apply_patches (apply_patches s opt) succ ?ck = None" by simp
    then show ?thesis by (simp add: doc_def jprop_def)
  next
    case False
    then have "jprop (doc (apply_patches (apply_patches s opt) succ) ?ck) ''iouReportID''
               = jprop (doc (apply_patches (apply_patches s opt) [m1, m2]) ?ck) ''iouReportID''"
      by (simp add: succ' apply_patches_append apply_patches_Cons apply_patch_set_null
            apply_patches_def[of _ "[]"] doc_def)
    with apply_patches_leaves[OF lv, of "apply_patches s opt"] e show ?thesis by simp
  qed
  from a b c e f show ?thesis by blast
qed

theorem delete_last_request_removes_report_witness:
  "deleteMoneyRequest sample_deps sample_delete_utils sample_edit_store (JStr ''30'')
       sample_delete_action False \<noteq> None
   \<and> shouldDeleteIOUReport sample_deps sample_delete_utils sample_edit_store sample_delete_action
   \<and> sample_edit_store (Coll REPORT ''20'') \<noteq> None
   \<and> (the (on_success sample_edit_store
         (deleteMoneyRequest sample_deps sample_delete_utils sample_edit_store (JStr ''30'')
            sample_delete_action False))) (Coll REPORT ''20'') = None
   \<and> field_of (Some sample_edit_store) (Coll REPORT ''10'') ''iouReportID'' = Some (JStr ''20'')
   \<and> field_of (on_optimistic sample_edit_store
         (deleteMoneyRequest sample_deps sample_delete_utils sample_edit_store (JStr ''30'')
            sample_delete_action False))
       (Coll REPORT ''10'') ''iouReportID'' = Some JUndef"
proof -
  have some: "deleteMoneyRequest sample_deps sample_delete_utils sample_edit_store (JStr ''30'')
       sample_delete_action False \<noteq> None"
    by code_simp
  then obtain opt succ fail where
    r: "deleteMoneyRequest sample_deps sample_delete_utils sample_edit_store (JStr ''30'')
          sample_delete_action False = Some (opt, succ, fail)"
    by (cases "deleteMoneyRequest sample_deps sample_delete_utils sample_edit_store (JStr ''30'')
          sample_delete_action False") auto
  have h: "shouldDeleteIOUReport sample_deps sample_delete_utils sample_edit_store sample_delete_action"
    by code_simp
  have k: "to_string (jprop (delete_iouReport sample_edit_store sample_delete_action) ''reportID'') = ''20''"
      "to_string (jprop (delete_chatReport sample_edit_store sample_delete_action) ''reportID'') = ''10''"
    by code_simp+
  have s0: "sample_edit_store (Coll REPORT ''20'') \<noteq> None"
      "field_of (Some sample_edit_store) (Coll REPORT ''10'') ''iouReportID'' = Some (JStr ''20'')"
    by code_simp+
  from delete_last_request_removes_report[OF r h] some h s0 show ?thesis
    by (simp add: r k field_of_def on_success_def on_optimistic_def)
qed

section \<open>Claims about gathering the information of a money request\<close>


lemma jprop_object_copy_set:
  "jprop (object [Spread x, Prop k v]) f = (if f = k then v else jprop x f)"
  by (simp add: jprop_def obj_simps split: option.splits)






section \<open>The report preview action\<close>

text \<open>
  What the sources fix about the report preview. \<open>getMoneyRequestInformation\<close> looks
  the preview of the chat report and the IOU report up unless the IOU report is new,
  updates what it finds and builds a new preview otherwise. \<open>deleteMoneyRequest\<close>
  takes one off \<open>childMoneyRequestCount\<close> when the count is positive and leaves the
  count alone otherwise.
\<close>

lemma getMoneyRequestInformation_preview:
  assumes "getMoneyRequestInformation d u i s report participant comment amount currency created
      merchant payeeAccountIDArg payeeEmailArg receipt existingTransactionID category tag billable
      policy policyTags policyCategories = Some r"
  shows "\<exists>iouReport0 found transaction.
      iouReport0 = mri_iouReport u i participant (fst (mri_chatReport i s report participant))
         (mri_existingIOUReport i s participant policy (fst (mri_chatReport i s report participant)))
         (if payeeAccountIDArg = JUndef then userAccountID i else payeeAccountIDArg) amount currency
      \<and> found = (if mri_isNewIOUReport i (fst (mri_chatReport i s report participant)) then JNull
                 else getReportPreviewAction u
                        (jprop (fst (mri_chatReport i s report participant)) ''reportID'')
                        (jprop iouReport0 ''reportID''))
      \<and> info_reportPreviewAction r =
          (if truthy found
           then updateReportPreview i [iouReport0, found, JBool False, comment, transaction]
           else buildOptimisticReportPreview i
                  [fst (mri_chatReport i s report participant), iouReport0, comment, transaction])"
  using assms unfolding getMoneyRequestInformation_def Let_def
  apply (simp only: bind_eq_Some_conv)
  apply (elim exE conjE)
  apply (drule sym[of "Some _" "Some r"])
  apply (simp only: option.inject)
  apply (simp split del: if_split)
  apply blast
  done

lemma delete_previewWithMessage_count:
  assumes "delete_previewWithMessage reportPreviewAction messageText deleteReport = Some p"
  shows "jprop p ''childMoneyRequestCount'' = jprop reportPreviewAction ''childMoneyRequestCount''
       \<and> jprop p ''reportActionID'' = jprop reportPreviewAction ''reportActionID''"
  using assms unfolding delete_previewWithMessage_def
  by (auto simp: bind_eq_Some_conv jprop_object_copy_set)

lemma delete_updatedReportPreviewAction_count:
  assumes "delete_previewWithMessage reportPreviewAction messageText deleteReport = Some p"
  shows "jprop (delete_updatedReportPreviewAction d reportPreviewAction p deleteReport)
           ''childMoneyRequestCount''
         = (if js_gt (jprop reportPreviewAction ''childMoneyRequestCount'') (JNum 0)
            then js_sub (jprop reportPreviewAction ''childMoneyRequestCount'') (JNum 1)
            else jprop reportPreviewAction ''childMoneyRequestCount'')"
  using delete_previewWithMessage_count[OF assms]
  by (simp add: delete_updatedReportPreviewAction_def jprop_def obj_simps split: option.splits)

end
